theory Spec2Isabelle
  imports Complex_Main "HOL-Library.Log_Nat"
begin

section \<open>JavaScript numbers\<close>

text \<open>
  Every arithmetic value of the dashboard is a JavaScript Number, an IEEE 754 double.
  A finite double is modelled by the rational it denotes, next to \<open>NaN\<close> and the two
  infinities. Each arithmetic operation computes the exact result and rounds it to the
  nearest value with a 53-bit significand, ties to even (\<open>fl\<close>). The exponent range is
  not modelled (overflow needs magnitudes of \<open>2^1024\<close>, underflow of \<open>2^-1022\<close>; the
  integer columns and the list lengths of this program reach neither), and \<open>-0\<close> is
  identified with \<open>0\<close> (no computed value is ever a divisor here).
\<close>

datatype number = Num rat | NaN | PosInf | NegInf

definition round_half_even :: "rat \<Rightarrow> int" where
  "round_half_even q = (let f = \<lfloor>q\<rfloor>; d = q - of_int f in
     if d < 1/2 then f else if 1/2 < d then f + 1 else if even f then f else f + 1)"

definition ilog2 :: "rat \<Rightarrow> int" where
  \<comment> \<open>the exponent \<open>e\<close> with \<open>2^e \<le> |x| < 2^(e+1)\<close>, for \<open>x \<noteq> 0\<close>\<close>
  "ilog2 x = (let (p, q) = quotient_of \<bar>x\<bar>; e = bitlen p - bitlen q in
     if 2 powi e \<le> \<bar>x\<bar> then e else e - 1)"

definition fl :: "rat \<Rightarrow> rat" where
  "fl x = (if x = 0 then 0 else
     let e = ilog2 x - 52 in of_int (round_half_even (x * 2 powi (- e))) * 2 powi e)"

fun js_add :: "number \<Rightarrow> number \<Rightarrow> number" where
  "js_add (Num a) (Num b) = Num (fl (a + b))"
| "js_add NaN _ = NaN"
| "js_add _ NaN = NaN"
| "js_add PosInf NegInf = NaN"
| "js_add NegInf PosInf = NaN"
| "js_add PosInf _ = PosInf"
| "js_add _ PosInf = PosInf"
| "js_add NegInf _ = NegInf"
| "js_add _ NegInf = NegInf"

fun js_mul :: "number \<Rightarrow> number \<Rightarrow> number" where
  "js_mul (Num a) (Num b) = Num (fl (a * b))"
| "js_mul NaN _ = NaN"
| "js_mul _ NaN = NaN"
| "js_mul PosInf (Num b) = (if b = 0 then NaN else if 0 < b then PosInf else NegInf)"
| "js_mul NegInf (Num b) = (if b = 0 then NaN else if 0 < b then NegInf else PosInf)"
| "js_mul (Num a) PosInf = (if a = 0 then NaN else if 0 < a then PosInf else NegInf)"
| "js_mul (Num a) NegInf = (if a = 0 then NaN else if 0 < a then NegInf else PosInf)"
| "js_mul PosInf PosInf = PosInf"
| "js_mul NegInf NegInf = PosInf"
| "js_mul PosInf NegInf = NegInf"
| "js_mul NegInf PosInf = NegInf"

fun js_div :: "number \<Rightarrow> number \<Rightarrow> number" where
  "js_div (Num a) (Num b) =
     (if b = 0 then (if a = 0 then NaN else if 0 < a then PosInf else NegInf)
      else Num (fl (a / b)))"
| "js_div NaN _ = NaN"
| "js_div _ NaN = NaN"
| "js_div (Num a) PosInf = Num 0"
| "js_div (Num a) NegInf = Num 0"
| "js_div PosInf (Num b) = (if 0 \<le> b then PosInf else NegInf)"
| "js_div NegInf (Num b) = (if 0 \<le> b then NegInf else PosInf)"
| "js_div _ _ = NaN"

fun js_ge :: "number \<Rightarrow> number \<Rightarrow> bool" where
  "js_ge (Num a) (Num b) = (b \<le> a)"
| "js_ge NaN _ = False"
| "js_ge _ NaN = False"
| "js_ge PosInf _ = True"
| "js_ge _ NegInf = True"
| "js_ge _ _ = False"

fun Math_round :: "number \<Rightarrow> number" where
  \<comment> \<open>the integral Number closest to the argument, a tie going towards \<open>+\<infinity>\<close>\<close>
  "Math_round (Num x) = Num (of_int \<lfloor>x + 1/2\<rfloor>)"
| "Math_round n = n"

fun isFinite :: "number \<Rightarrow> bool" where
  "isFinite (Num x) = True"
| "isFinite _ = False"

definition json_number :: "int \<Rightarrow> number" where
  \<comment> \<open>an integer column as the JSON parser delivers it\<close>
  "json_number i = Num (fl (of_int i))"

definition length_number :: "nat \<Rightarrow> number" where
  \<comment> \<open>an array length (below \<open>2^32\<close>, so exact)\<close>
  "length_number n = Num (of_nat n)"

fun or_else :: "string option \<Rightarrow> string \<Rightarrow> string" where
  \<comment> \<open>\<open>x || d\<close> on an optional string: \<open>null\<close>, \<open>undefined\<close> and \<open>''\<close> are falsy\<close>
  "or_else None d = d"
| "or_else (Some s) d = (if s = [] then d else s)"

section \<open>Query results\<close>

text \<open>
  A query of the hosted store settles in one of two ways: its promise resolves with a
  response object \<open>{data, error}\<close> (\<open>data\<close> is \<open>null\<close> when the store reports an error),
  or the promise rejects and \<open>await\<close> throws.
\<close>

record 'a response =
  data :: "'a option"
  error :: "string option"

datatype 'a settled = Resolved "'a response" | Rejected string

section \<open>QuizHistory\<close>

record attempt_row =
  attempt_id :: string
  attempt_score :: int
  attempt_total_questions :: int
  attempt_completed_at :: string
  attempt_quiz_id :: string
  attempt_quizzes_title :: "string option"

record QuizHistory =
  h_id :: string
  quizTitle :: string
  h_score :: number
  totalQuestions :: number
  h_percentage :: number
  h_completedAt :: string
  isPassed :: bool

record QuizStats =
  totalQuizzes :: nat
  h_averageScore :: number
  passedQuizzes :: nat
  totalScore :: number

record history_state =
  history :: "QuizHistory list"
  stats :: QuizStats
  h_loading :: bool

definition history_row :: "attempt_row \<Rightarrow> QuizHistory" where
  "history_row attempt =
     (let percentage = Math_round (js_mul (js_div (json_number (attempt_score attempt))
                         (json_number (attempt_total_questions attempt))) (Num 100))
      in \<lparr> h_id = attempt_id attempt,
           quizTitle = or_else (attempt_quizzes_title attempt) ''Unknown Quiz'',
           h_score = json_number (attempt_score attempt),
           totalQuestions = json_number (attempt_total_questions attempt),
           h_percentage = percentage,
           h_completedAt = attempt_completed_at attempt,
           isPassed = js_ge percentage (Num 70) \<rparr>)"

definition quiz_stats :: "QuizHistory list \<Rightarrow> QuizStats" where
  "quiz_stats historyData =
     (let totalQuizzes = length historyData;
          totalScore = foldl (\<lambda>sum quiz. js_add sum (h_percentage quiz)) (Num 0) historyData;
          averageScore = (if 0 < totalQuizzes
                          then Math_round (js_div totalScore (length_number totalQuizzes))
                          else Num 0);
          passedQuizzes = length (filter isPassed historyData)
      in \<lparr> totalQuizzes = totalQuizzes, h_averageScore = averageScore,
           passedQuizzes = passedQuizzes, totalScore = totalScore \<rparr>)"

fun fetchQuizHistory :: "history_state \<Rightarrow> attempt_row list settled \<Rightarrow> history_state" where
  "fetchQuizHistory s (Rejected e) = s\<lparr> h_loading := False \<rparr>"
| "fetchQuizHistory s (Resolved r) =
     (case error r of
        Some e \<Rightarrow> s\<lparr> h_loading := False \<rparr>
      | None \<Rightarrow>
          (case data r of
             None \<Rightarrow> s\<lparr> h_loading := False \<rparr>
           | Some attempts \<Rightarrow>
               (let historyData = map history_row attempts
                in \<lparr> history = historyData, stats = quiz_stats historyData,
                     h_loading = False \<rparr>)))"


section \<open>QuizAnalytics\<close>

record quiz_attempt =
  qa_id :: string
  user_id :: string
  qa_score :: int
  qa_total_questions :: int
  qa_completed_at :: string
  profiles_full_name :: "string option"

record quiz_row =
  quiz_id :: string
  quiz_title :: string
  quiz_attempts :: "quiz_attempt list option"

record student =
  st_id :: string
  st_name :: string
  st_score :: number
  st_percentage :: number
  st_completedAt :: string

record QuizAnalytics =
  quizId :: string
  quizTitle_a :: string
  totalAttempts :: nat
  averageScore :: number
  completionRate :: number
  students :: "student list"

record analytics_state =
  analytics :: "QuizAnalytics list"
  a_loading :: bool

definition student_of :: "quiz_attempt \<Rightarrow> student" where
  "student_of attempt =
     \<lparr> st_id = user_id attempt,
       st_name = or_else (profiles_full_name attempt) ''Unknown'',
       st_score = json_number (qa_score attempt),
       st_percentage = Math_round (js_mul (js_div (json_number (qa_score attempt))
                         (json_number (qa_total_questions attempt))) (Num 100)),
       st_completedAt = qa_completed_at attempt \<rparr>"

definition quiz_analytics :: "quiz_row \<Rightarrow> QuizAnalytics" where
  "quiz_analytics quiz =
     (let attempts = (case quiz_attempts quiz of None \<Rightarrow> [] | Some as \<Rightarrow> as);
          totalAttempts = length attempts;
          averageScore =
            (if 0 < totalAttempts
             then js_div (foldl (\<lambda>sum attempt. js_add sum (json_number (qa_score attempt)))
                            (Num 0) attempts) (length_number totalAttempts)
             else Num 0);
          averagePercentage =
            (if 0 < totalAttempts
             then js_div (foldl (\<lambda>sum attempt. js_add sum
                              (js_mul (js_div (json_number (qa_score attempt))
                                 (json_number (qa_total_questions attempt))) (Num 100)))
                            (Num 0) attempts) (length_number totalAttempts)
             else Num 0);
          students = map student_of attempts
      in \<lparr> quizId = quiz_id quiz,
           quizTitle_a = quiz_title quiz,
           totalAttempts = totalAttempts,
           averageScore = js_div (Math_round (js_mul averageScore (Num 10))) (Num 10),
           completionRate = Math_round averagePercentage,
           students = students \<rparr>)"

fun fetchQuizAnalytics :: "analytics_state \<Rightarrow> quiz_row list settled \<Rightarrow> analytics_state" where
  "fetchQuizAnalytics s (Rejected e) = s\<lparr> a_loading := False \<rparr>"
| "fetchQuizAnalytics s (Resolved r) =
     (case error r of
        Some e \<Rightarrow> s\<lparr> a_loading := False \<rparr>
      | None \<Rightarrow>
          (case data r of
             None \<Rightarrow> s\<lparr> a_loading := False \<rparr>
           | Some quizzes \<Rightarrow>
               \<lparr> analytics = map quiz_analytics quizzes, a_loading = False \<rparr>))"

section \<open>Dates\<close>

text \<open>
  A Date holds a time value: milliseconds since the epoch, in UTC. The calendar functions
  are those of the ECMAScript specification (Day, DayFromYear, YearFromTime, MonthFromTime,
  DateFromTime, WeekDay, MakeDay, MakeDate). Local time is the time value plus the offset
  \<open>tza\<close> of the local time zone, a fixed number of milliseconds (daylight saving is not
  modelled). The constructor's remapping of the years 0 to 99 and the clipping of time
  values beyond 100 million days from the epoch are outside the model.
\<close>

definition msPerDay :: int where
  "msPerDay = 86400000"

definition Day :: "int \<Rightarrow> int" where
  "Day t = t div msPerDay"

definition TimeWithinDay :: "int \<Rightarrow> int" where
  "TimeWithinDay t = t mod msPerDay"

definition DaysInYear :: "int \<Rightarrow> int" where
  "DaysInYear y = (if y mod 4 \<noteq> 0 then 365 else if y mod 100 \<noteq> 0 then 366
                   else if y mod 400 \<noteq> 0 then 365 else 366)"

definition DayFromYear :: "int \<Rightarrow> int" where
  "DayFromYear y = 365 * (y - 1970) + (y - 1969) div 4 - (y - 1901) div 100 + (y - 1601) div 400"

definition YearFromDay :: "int \<Rightarrow> int" where
  \<comment> \<open>the largest \<open>y\<close> with \<open>DayFromYear y \<le> d\<close>: an estimate, corrected by one\<close>
  "YearFromDay d = (let y = 1970 + (400 * d) div 146097 in
     if DayFromYear (y + 1) \<le> d then y + 1 else if DayFromYear y \<le> d then y else y - 1)"

definition YearFromTime :: "int \<Rightarrow> int" where
  "YearFromTime t = YearFromDay (Day t)"

definition InLeapYear :: "int \<Rightarrow> bool" where
  "InLeapYear t = (DaysInYear (YearFromTime t) = 366)"

definition DayWithinYear :: "int \<Rightarrow> int" where
  "DayWithinYear t = Day t - DayFromYear (YearFromTime t)"

definition month_start :: "bool \<Rightarrow> int \<Rightarrow> int" where
  \<comment> \<open>the day within the year on which month \<open>m\<close> (0 to 11) starts\<close>
  "month_start leap m =
     (if m = 0 then 0 else if m = 1 then 31
      else (if leap then 1 else 0) +
        (if m = 2 then 59 else if m = 3 then 90 else if m = 4 then 120
         else if m = 5 then 151 else if m = 6 then 181 else if m = 7 then 212
         else if m = 8 then 243 else if m = 9 then 273 else if m = 10 then 304
         else if m = 11 then 334 else 365))"

definition MonthFromTime :: "int \<Rightarrow> int" where
  "MonthFromTime t = (let d = DayWithinYear t; leap = InLeapYear t in
     if d < month_start leap 1 then 0 else if d < month_start leap 2 then 1
     else if d < month_start leap 3 then 2 else if d < month_start leap 4 then 3
     else if d < month_start leap 5 then 4 else if d < month_start leap 6 then 5
     else if d < month_start leap 7 then 6 else if d < month_start leap 8 then 7
     else if d < month_start leap 9 then 8 else if d < month_start leap 10 then 9
     else if d < month_start leap 11 then 10 else 11)"

definition DateFromTime :: "int \<Rightarrow> int" where
  "DateFromTime t = DayWithinYear t - month_start (InLeapYear t) (MonthFromTime t) + 1"

definition WeekDay :: "int \<Rightarrow> int" where
  "WeekDay t = (Day t + 4) mod 7"

definition MakeDay :: "int \<Rightarrow> int \<Rightarrow> int \<Rightarrow> int" where
  "MakeDay year month date = (let ym = year + month div 12; mn = month mod 12 in
     DayFromYear ym + month_start (DaysInYear ym = 366) mn + date - 1)"

definition MakeDate :: "int \<Rightarrow> int \<Rightarrow> int" where
  "MakeDate day time = day * msPerDay + time"

definition LocalTime :: "int \<Rightarrow> int \<Rightarrow> int" where
  "LocalTime tza t = t + tza"

definition UTC :: "int \<Rightarrow> int \<Rightarrow> int" where
  "UTC tza t = t - tza"

definition getFullYear :: "int \<Rightarrow> int \<Rightarrow> int" where
  "getFullYear tza t = YearFromTime (LocalTime tza t)"

definition getMonth :: "int \<Rightarrow> int \<Rightarrow> int" where
  "getMonth tza t = MonthFromTime (LocalTime tza t)"

definition getDate :: "int \<Rightarrow> int \<Rightarrow> int" where
  "getDate tza t = DateFromTime (LocalTime tza t)"

definition getDay :: "int \<Rightarrow> int \<Rightarrow> int" where
  "getDay tza t = WeekDay (LocalTime tza t)"

definition setDate :: "int \<Rightarrow> int \<Rightarrow> int \<Rightarrow> int" where
  \<comment> \<open>the time value that \<open>d.setDate(dt)\<close> stores in \<open>d\<close> and returns\<close>
  "setDate tza t dt = (let lt = LocalTime tza t in
     UTC tza (MakeDate (MakeDay (YearFromTime lt) (MonthFromTime lt) dt) (TimeWithinDay lt)))"

definition new_Date :: "int \<Rightarrow> int \<Rightarrow> int \<Rightarrow> int \<Rightarrow> int" where
  \<comment> \<open>\<open>new Date(year, month, date)\<close>: local midnight of that day\<close>
  "new_Date tza year month date = UTC tza (MakeDate (MakeDay year month date) 0)"

fun date_ge :: "int option \<Rightarrow> int \<Rightarrow> bool" where
  \<comment> \<open>\<open>a >= b\<close> on Dates; \<open>None\<close> is an Invalid Date, whose time value is NaN\<close>
  "date_ge None b = False"
| "date_ge (Some a) b = (b \<le> a)"

fun date_lt :: "int option \<Rightarrow> int \<Rightarrow> bool" where
  "date_lt None b = False"
| "date_lt (Some a) b = (a < b)"

definition month_short :: "int \<Rightarrow> string" where
  "month_short m =
     (if m = 0 then ''Jan'' else if m = 1 then ''Feb'' else if m = 2 then ''Mar''
      else if m = 3 then ''Apr'' else if m = 4 then ''May'' else if m = 5 then ''Jun''
      else if m = 6 then ''Jul'' else if m = 7 then ''Aug'' else if m = 8 then ''Sep''
      else if m = 9 then ''Oct'' else if m = 10 then ''Nov'' else ''Dec'')"

fun decimal :: "nat \<Rightarrow> string" where
  "decimal n = (if n < 10 then [char_of (48 + n)]
                else decimal (n div 10) @ [char_of (48 + n mod 10)])"

definition month_year_label :: "int \<Rightarrow> int \<Rightarrow> string" where
  \<comment> \<open>\<open>toLocaleDateString('en-US', {month: 'short', year: 'numeric'})\<close>, for the years
      of the common era\<close>
  "month_year_label tza t =
     month_short (getMonth tza t) @ '' '' @ decimal (nat (getFullYear tza t))"

section \<open>UserStatistics\<close>

text \<open>
  A row holds its creation timestamp as the string the store sends. \<open>new Date(string)\<close>
  is taken as a parameter \<open>parse\<close>: it yields the time value, or \<open>None\<close> for an Invalid
  Date.
\<close>

type_synonym date_parser = "string \<Rightarrow> int option"

record profile =
  p_id :: string
  full_name :: "string option"
  email :: string
  role :: string
  created_at :: string

record recent_user =
  ru_id :: string
  ru_name :: string
  ru_email :: string
  ru_role :: string
  ru_createdAt :: string

record growth =
  month :: string
  count :: nat

record UserStats =
  totalUsers :: nat
  totalStudents :: nat
  totalAdmins :: nat
  newUsersThisMonth :: nat
  newUsersThisWeek :: nat
  recentUsers :: "recent_user list"
  monthlyGrowth :: "growth list"

record statistics_state =
  user_stats :: UserStats
  u_loading :: bool

definition growth_bucket :: "int \<Rightarrow> date_parser \<Rightarrow> int \<Rightarrow> profile list \<Rightarrow> nat \<Rightarrow> growth" where
  \<comment> \<open>one turn of the loop, for the counter \<open>i\<close>; \<open>now\<close> is the loop's \<open>now\<close>\<close>
  "growth_bucket tza parse now allUsers i =
     (let date = new_Date tza (getFullYear tza now) (getMonth tza now - int i) 1;
          nextMonth = new_Date tza (getFullYear tza now) (getMonth tza now - int i + 1) 1;
          count = length (filter (\<lambda>user.
                    (let userDate = parse (created_at user)
                     in date_ge userDate date \<and> date_lt userDate nextMonth)) allUsers)
      in \<lparr> month = month_year_label tza date, count = count \<rparr>)"

fun growth_loop :: "int \<Rightarrow> date_parser \<Rightarrow> int \<Rightarrow> profile list \<Rightarrow> nat \<Rightarrow> growth list" where
  \<comment> \<open>\<open>for (let i = 5; i >= 0; i--)\<close>, from the counter \<open>i\<close> on\<close>
  "growth_loop tza parse now allUsers 0 = [growth_bucket tza parse now allUsers 0]"
| "growth_loop tza parse now allUsers (Suc i) =
     growth_bucket tza parse now allUsers (Suc i) # growth_loop tza parse now allUsers i"

definition recent_user_of :: "profile \<Rightarrow> recent_user" where
  "recent_user_of user =
     \<lparr> ru_id = p_id user, ru_name = or_else (full_name user) ''Unknown'',
       ru_email = email user, ru_role = role user, ru_createdAt = created_at user \<rparr>"

definition user_statistics :: "int \<Rightarrow> date_parser \<Rightarrow> int \<Rightarrow> profile list \<Rightarrow> UserStats" where
  \<comment> \<open>\<open>now0\<close> is the time value of \<open>new Date()\<close>; \<open>now.setDate\<close> then overwrites \<open>now\<close>,
      and every later read of \<open>now\<close> sees \<open>now1\<close>\<close>
  "user_statistics tza parse now0 allUsers =
     (let startOfMonth = new_Date tza (getFullYear tza now0) (getMonth tza now0) 1;
          now1 = setDate tza now0 (getDate tza now0 - getDay tza now0);
          startOfWeek = now1;
          totalUsers = length allUsers;
          totalStudents = length (filter (\<lambda>user. role user = ''student'') allUsers);
          totalAdmins = length (filter (\<lambda>user. role user = ''admin'') allUsers);
          newUsersThisMonth = length (filter (\<lambda>user.
                                date_ge (parse (created_at user)) startOfMonth) allUsers);
          newUsersThisWeek = length (filter (\<lambda>user.
                               date_ge (parse (created_at user)) startOfWeek) allUsers);
          recentUsers = map recent_user_of (take 10 allUsers);
          monthlyGrowth = growth_loop tza parse now1 allUsers 5
      in \<lparr> totalUsers = totalUsers, totalStudents = totalStudents,
           totalAdmins = totalAdmins, newUsersThisMonth = newUsersThisMonth,
           newUsersThisWeek = newUsersThisWeek, recentUsers = recentUsers,
           monthlyGrowth = monthlyGrowth \<rparr>)"

fun fetchUserStatistics ::
  "int \<Rightarrow> date_parser \<Rightarrow> int \<Rightarrow> statistics_state \<Rightarrow> profile list settled \<Rightarrow> statistics_state" where
  "fetchUserStatistics tza parse now s (Rejected e) = s\<lparr> u_loading := False \<rparr>"
| "fetchUserStatistics tza parse now s (Resolved r) =
     (case data r of
        None \<Rightarrow> s\<lparr> u_loading := False \<rparr>
      | Some allUsers \<Rightarrow>
          \<lparr> user_stats = user_statistics tza parse now allUsers, u_loading = False \<rparr>)"

section \<open>ContentManagement\<close>

datatype content_type = Book | Video | Course | Quiz

record content_row =
  row_id :: string
  row_title :: string
  row_description :: "string option"
  row_subject :: "string option"
  row_created_at :: string
  row_owner :: "string option"
  row_other :: "(string \<times> string) list"

text \<open>
  \<open>row_owner\<close> is the column \<open>uploaded_by\<close> of a book or a video and \<open>created_by\<close> of a
  course or a quiz; \<open>row_other\<close> stands for the columns that this component never reads.
\<close>

record ContentItem =
  c_id :: string
  c_type :: content_type
  c_title :: string
  c_description :: "string option"
  c_subject :: "string option"
  createdAt :: string
  uploadedBy :: "string option"

record edit_form =
  f_title :: string
  f_description :: string
  f_subject :: string

record toast =
  t_title :: string
  t_description :: string
  t_variant :: "string option"

record content_state =
  content :: "ContentItem list"
  c_loading :: bool
  editingItem :: "ContentItem option"
  editDialogOpen :: bool
  editForm :: edit_form
  toasts :: "toast list"

definition content_item :: "content_type \<Rightarrow> content_row \<Rightarrow> ContentItem" where
  "content_item ty item =
     \<lparr> c_id = row_id item, c_type = ty, c_title = row_title item,
       c_description = row_description item, c_subject = row_subject item,
       createdAt = row_created_at item, uploadedBy = row_owner item \<rparr>"

fun getTime :: "int option \<Rightarrow> number" where
  "getTime None = NaN"
| "getTime (Some t) = Num (of_int t)"

fun js_neg :: "number \<Rightarrow> number" where
  "js_neg (Num a) = Num (- a)"
| "js_neg NaN = NaN"
| "js_neg PosInf = NegInf"
| "js_neg NegInf = PosInf"

definition js_sub :: "number \<Rightarrow> number \<Rightarrow> number" where
  "js_sub a b = js_add a (js_neg b)"

fun js_gt :: "number \<Rightarrow> number \<Rightarrow> bool" where
  "js_gt (Num a) (Num b) = (b < a)"
| "js_gt NaN _ = False"
| "js_gt _ NaN = False"
| "js_gt PosInf PosInf = False"
| "js_gt PosInf _ = True"
| "js_gt NegInf _ = False"
| "js_gt (Num a) NegInf = True"
| "js_gt (Num a) PosInf = False"

text \<open>
  \<open>Array.prototype.sort\<close> with a comparison function is stable, and a comparison result
  of NaN counts as \<open>0\<close>. For a consistent comparison function the result is the one stable
  ordering, which insertion from the right computes.
\<close>

fun insert_by :: "('a \<Rightarrow> 'a \<Rightarrow> number) \<Rightarrow> 'a \<Rightarrow> 'a list \<Rightarrow> 'a list" where
  "insert_by cmp x [] = [x]"
| "insert_by cmp x (y # ys) =
     (if js_gt (cmp x y) (Num 0) then y # insert_by cmp x ys else x # y # ys)"

definition Array_sort :: "('a \<Rightarrow> 'a \<Rightarrow> number) \<Rightarrow> 'a list \<Rightarrow> 'a list" where
  "Array_sort cmp xs = foldr (insert_by cmp) xs []"

definition by_created_desc :: "date_parser \<Rightarrow> ContentItem \<Rightarrow> ContentItem \<Rightarrow> number" where
  "by_created_desc parse a b =
     js_sub (getTime (parse (createdAt b))) (getTime (parse (createdAt a)))"

definition data_or_empty :: "'a list response \<Rightarrow> 'a list" where
  \<comment> \<open>\<open>r.data || []\<close>\<close>
  "data_or_empty r = (case data r of None \<Rightarrow> [] | Some rows \<Rightarrow> rows)"

definition fetch_failed_toast :: toast where
  "fetch_failed_toast =
     \<lparr> t_title = ''Error'', t_description = ''Failed to fetch content'',
       t_variant = Some ''destructive'' \<rparr>"

fun fetchAllContent ::
  "date_parser \<Rightarrow> content_state \<Rightarrow> content_row list settled \<Rightarrow> content_row list settled \<Rightarrow>
   content_row list settled \<Rightarrow> content_row list settled \<Rightarrow> content_state" where
  "fetchAllContent parse s (Resolved booksData) (Resolved videosData)
       (Resolved coursesData) (Resolved quizzesData) =
     (let allContent = Array_sort (by_created_desc parse)
            (map (content_item Book) (data_or_empty booksData) @
             map (content_item Video) (data_or_empty videosData) @
             map (content_item Course) (data_or_empty coursesData) @
             map (content_item Quiz) (data_or_empty quizzesData))
      in s\<lparr> content := allContent, c_loading := False \<rparr>)"
| "fetchAllContent parse s _ _ _ _ =
     s\<lparr> toasts := toasts s @ [fetch_failed_toast], c_loading := False \<rparr>"

definition handleEdit :: "content_state \<Rightarrow> ContentItem \<Rightarrow> content_state" where
  "handleEdit s item =
     s\<lparr> editingItem := Some item,
        editForm := \<lparr> f_title = c_title item,
                      f_description = or_else (c_description item) [],
                      f_subject = or_else (c_subject item) [] \<rparr>,
        editDialogOpen := True \<rparr>"

definition setEditForm :: "content_state \<Rightarrow> edit_form \<Rightarrow> content_state" where
  "setEditForm s f = s\<lparr> editForm := f \<rparr>"

fun tableName :: "content_type \<Rightarrow> string" where
  "tableName Book = ''books''"
| "tableName Video = ''videos''"
| "tableName Course = ''courses''"
| "tableName Quiz = ''quizzes''"

type_synonym store = "string \<Rightarrow> (string \<rightharpoonup> content_row)"

definition store_update :: "store \<Rightarrow> string \<Rightarrow> edit_form \<Rightarrow> string \<Rightarrow> store" where
  \<comment> \<open>Modelled from the spec: the hosted store's write query, "update named fields of a
      record by identity" (section 6); the store itself is not part of the repository.
      A table maps the identity, its primary key, to the row.\<close>
  "store_update db tbl updateData i =
     (case db tbl i of
        None \<Rightarrow> db
      | Some r \<Rightarrow> db(tbl := (db tbl)(i \<mapsto>
          r\<lparr> row_title := f_title updateData,
             row_description := Some (f_description updateData),
             row_subject := Some (f_subject updateData) \<rparr>)))"

definition type_name :: "content_type \<Rightarrow> string" where
  "type_name ty = (case ty of Book \<Rightarrow> ''book'' | Video \<Rightarrow> ''video''
                   | Course \<Rightarrow> ''course'' | Quiz \<Rightarrow> ''quiz'')"

definition handleSaveEdit ::
  "date_parser \<Rightarrow> content_state \<Rightarrow> store \<Rightarrow> string option \<Rightarrow>
   (store \<Rightarrow> content_row list settled \<times> content_row list settled \<times>
             content_row list settled \<times> content_row list settled) \<Rightarrow>
   content_state \<times> store" where
  \<comment> \<open>\<open>write_error\<close> is the \<open>error\<close> of the store's answer to the update (a store that
      refuses writes nothing); \<open>refetch\<close> gives the answers to the four queries of the
      \<open>fetchAllContent\<close> that follows a successful save\<close>
  "handleSaveEdit parse s db write_error refetch =
     (case editingItem s of
        None \<Rightarrow> (s, db)
      | Some item \<Rightarrow>
          (let updateData = editForm s;
               tbl = tableName (c_type item)
           in case write_error of
                Some e \<Rightarrow>
                  (s\<lparr> toasts := toasts s @
                        [\<lparr> t_title = ''Error'', t_description = ''Failed to update content'',
                           t_variant = Some ''destructive'' \<rparr>] \<rparr>, db)
              | None \<Rightarrow>
                  (let db' = store_update db tbl updateData (c_id item);
                       s1 = s\<lparr> toasts := toasts s @
                              [\<lparr> t_title = ''Success'',
                                 t_description = type_name (c_type item) @ '' updated successfully'',
                                 t_variant = None \<rparr>],
                              editDialogOpen := False, editingItem := None \<rparr>
                   in (case refetch db' of (b, v, c, q) \<Rightarrow>
                         (fetchAllContent parse s1 b v c q, db')))))"

section \<open>Notions of the specification\<close>



definition half_up :: "rat \<Rightarrow> int \<Rightarrow> bool" where
  \<comment> \<open>\<open>p\<close> is \<open>v\<close> rounded to the nearest integer, a tie going up\<close>
  "half_up v p \<longleftrightarrow> of_int p - 1/2 \<le> v \<and> v < of_int p + 1/2"

definition unit_roundoff :: rat where
  \<comment> \<open>the largest relative error of one rounding to a 53-bit significand\<close>
  "unit_roundoff = 1 / 2 ^ 53"

definition roundoff :: "nat \<Rightarrow> rat" where
  \<comment> \<open>the largest relative error that \<open>k\<close> roundings, one after the other, add up to;
      a little more than \<open>k / 2^53\<close>\<close>
  "roundoff k = (1 + unit_roundoff) ^ k - 1"

definition half_up_near :: "rat \<Rightarrow> rat \<Rightarrow> int \<Rightarrow> bool" where
  \<comment> \<open>\<open>p\<close> is the half-up rounding of some value no further than \<open>tol\<close> from \<open>e\<close>:
      the half-up rounding of \<open>e\<close> itself, unless \<open>e\<close> is within \<open>tol\<close> of a tie, where
      it may be the integer on the other side of the tie\<close>
  "half_up_near tol e p \<longleftrightarrow> of_int p - 1/2 \<le> e + tol \<and> e - tol < of_int p + 1/2"



section \<open>Expressions of the source\<close>

text \<open>
  Shorthands for the expressions that the components evaluate in several places, in
  double precision as the source has them: the sum that \<open>reduce\<close> builds from the head of
  the list, the sum over the length, the quotient times 100, and the tenfold value
  rounded and divided by ten.
\<close>

definition js_sum :: "number list \<Rightarrow> number" where
  "js_sum xs = foldl js_add (Num 0) xs"

definition js_mean :: "number list \<Rightarrow> number" where
  \<comment> \<open>\<open>length > 0 ? sum / length : 0\<close>\<close>
  "js_mean xs = (if xs = [] then Num 0 else js_div (js_sum xs) (length_number (length xs)))"

definition js_percentage :: "int \<Rightarrow> int \<Rightarrow> number" where
  \<comment> \<open>\<open>(score / total_questions) * 100\<close>\<close>
  "js_percentage s t = js_mul (js_div (json_number s) (json_number t)) (Num 100)"

definition js_round_1dp :: "number \<Rightarrow> number" where
  \<comment> \<open>\<open>Math.round(x * 10) / 10\<close>\<close>
  "js_round_1dp x = js_div (Math_round (js_mul x (Num 10))) (Num 10)"

definition attempts_of :: "quiz_row \<Rightarrow> quiz_attempt list" where
  \<comment> \<open>\<open>quiz.quiz_attempts || []\<close>: the attempts of a quiz, none when the nested
      collection is absent\<close>
  "attempts_of quiz = (case quiz_attempts quiz of None \<Rightarrow> [] | Some as \<Rightarrow> as)"

section \<open>Sample rows\<close>

definition an_attempt :: "int \<Rightarrow> int \<Rightarrow> attempt_row" where
  \<comment> \<open>a sample row \<open>{score, total_questions}\<close> of a user's attempts\<close>
  "an_attempt s t =
     \<lparr> attempt_id = ''a1'', attempt_score = s, attempt_total_questions = t,
       attempt_completed_at = ''2025-01-01T00:00:00Z'', attempt_quiz_id = ''q1'',
       attempt_quizzes_title = None \<rparr>"

definition sample_attempts :: "attempt_row list" where
  \<open>sample_attempts = [an_attempt 7 10, an_attempt 1 10, an_attempt 2 10]\<close>



definition merged_content ::
  "content_row list \<Rightarrow> content_row list \<Rightarrow> content_row list \<Rightarrow> content_row list \<Rightarrow>
   ContentItem list" where
  \<comment> \<open>the four collections, tagged by variant, one after the other\<close>
  "merged_content books videos courses quizzes =
     map (content_item Book) books @ map (content_item Video) videos @
     map (content_item Course) courses @ map (content_item Quiz) quizzes"

definition delivered :: "'a list \<Rightarrow> 'a list settled" where
  \<comment> \<open>a query that succeeds with the given rows\<close>
  "delivered rows = Resolved \<lparr> data = Some rows, error = None \<rparr>"

definition refused :: "string \<Rightarrow> 'a list settled" where
  \<comment> \<open>a query that the store answers with an error and no data\<close>
  "refused e = Resolved \<lparr> data = None, error = Some e \<rparr>"

fun is_rejected :: "'a settled \<Rightarrow> bool" where
  "is_rejected (Rejected e) = True"
| "is_rejected (Resolved r) = False"

fun fetch_failed :: "'a settled \<Rightarrow> bool" where
  \<comment> \<open>a sub-fetch fails when its promise rejects or its answer carries an error\<close>
  "fetch_failed (Rejected e) = True"
| "fetch_failed (Resolved r) = (error r \<noteq> None)"

fun rows_or_empty :: "'a list settled \<Rightarrow> 'a list" where
  \<comment> \<open>the rows a sub-fetch contributes: those it delivered, none when it failed\<close>
  "rows_or_empty (Rejected e) = []"
| "rows_or_empty (Resolved r) = data_or_empty r"

definition newer_or_equal :: "date_parser \<Rightarrow> ContentItem \<Rightarrow> ContentItem \<Rightarrow> bool" where
  \<comment> \<open>both creation timestamps are valid and the first is not the earlier one\<close>
  "newer_or_equal parse x y =
     (case (parse (createdAt x), parse (createdAt y)) of
        (Some tx, Some ty) \<Rightarrow> ty \<le> tx
      | _ \<Rightarrow> False)"

definition created_time :: "date_parser \<Rightarrow> ContentItem \<Rightarrow> int" where
  \<comment> \<open>the time value of a valid creation timestamp\<close>
  "created_time parse x = (case parse (createdAt x) of Some t \<Rightarrow> t | None \<Rightarrow> 0)"

definition initial_content_state :: content_state where
  \<comment> \<open>the state the component is mounted with\<close>
  "initial_content_state =
     \<lparr> content = [], c_loading = True, editingItem = None, editDialogOpen = False,
       editForm = \<lparr> f_title = [], f_description = [], f_subject = [] \<rparr>, toasts = [] \<rparr>"

definition a_row :: "string \<Rightarrow> string \<Rightarrow> content_row" where
  \<comment> \<open>a sample row with the given identity and creation timestamp, without description
      and subject\<close>
  "a_row i t =
     \<lparr> row_id = i, row_title = ''Title'', row_description = None, row_subject = None,
       row_created_at = t, row_owner = Some ''admin'', row_other = [(''file_url'', ''f'')] \<rparr>"

definition sample_store :: store where
  \<comment> \<open>a store in which every collection holds a record with the identity \<open>b1\<close>\<close>
  "sample_store =
     ((\<lambda>tbl. Map.empty)
        (''books'' := [''b1'' \<mapsto> a_row ''b1'' ''2025-09-28T08:00:00Z'',
                      ''b2'' \<mapsto> a_row ''b2'' ''2025-10-01T06:00:00Z''],
         ''videos'' := [''b1'' \<mapsto> a_row ''b1'' ''2025-10-01T06:00:00Z''],
         ''courses'' := [''b1'' \<mapsto> a_row ''b1'' ''2025-09-01T00:00:00Z''],
         ''quizzes'' := [''b1'' \<mapsto> a_row ''b1'' ''2025-09-01T00:00:00Z'']))"

definition content_queries ::
  "(string \<Rightarrow> content_row list settled) \<Rightarrow>
   content_row list settled \<times> content_row list settled \<times>
     content_row list settled \<times> content_row list settled" where
  \<comment> \<open>the four queries of \<open>fetchAllContent\<close>, \<open>supabase.from(t).select('*')\<close> for each
      collection \<open>t\<close>, in the order in which their answers are destructured;
      \<open>answer t\<close> is how the query on \<open>t\<close> settles\<close>
  "content_queries answer =
     (answer ''books'', answer ''videos'', answer ''courses'', answer ''quizzes'')"

definition listed_content ::
  "date_parser \<Rightarrow> content_state \<Rightarrow> (string \<Rightarrow> content_row list settled) \<Rightarrow>
   ContentItem list" where
  \<comment> \<open>the list that \<open>fetchAllContent\<close> shows when its queries settle as \<open>answer\<close>
      says\<close>
  "listed_content parse s answer =
     (case content_queries answer of
        (b, v, c, q) \<Rightarrow> content (fetchAllContent parse s b v c q))"

definition no_refetch ::
  "store \<Rightarrow> content_row list settled \<times> content_row list settled \<times>
     content_row list settled \<times> content_row list settled" where
  "no_refetch db = (delivered [], delivered [], delivered [], delivered [])"

definition sample_parse :: date_parser where
  \<comment> \<open>a parser for the sample timestamps (UTC); every other string is an Invalid Date\<close>
  "sample_parse s =
     (if s = ''2025-10-01T06:00:00Z'' then Some 1759298400000
      else if s = ''2025-09-28T08:00:00Z'' then Some 1759046400000
      else if s = ''2025-09-01T00:00:00Z'' then Some 1756684800000
      else None)"

definition a_profile :: "string \<Rightarrow> profile" where
  \<comment> \<open>a sample user created at the given timestamp\<close>
  "a_profile t =
     \<lparr> p_id = ''u1'', full_name = Some ''Ada'', email = ''ada@example.org'',
       role = ''student'', created_at = t \<rparr>"

definition week_start :: "int \<Rightarrow> int \<Rightarrow> int" where
  \<comment> \<open>the start of the week of \<open>now\<close>: local midnight of the most recent Sunday\<close>
  "week_start tza now =
     new_Date tza (getFullYear tza now) (getMonth tza now) (getDate tza now - getDay tza now)"

definition month_start_of :: "int \<Rightarrow> int \<Rightarrow> int" where
  \<comment> \<open>local midnight of the first day of the calendar month of \<open>now\<close>\<close>
  "month_start_of tza now = new_Date tza (getFullYear tza now) (getMonth tza now) 1"

definition most_recent_sunday :: "int \<Rightarrow> int \<Rightarrow> int" where
  \<comment> \<open>the most recent Sunday at the time of day of \<open>now\<close>: as many whole days
      before \<open>now\<close> as the day of the week counts\<close>
  "most_recent_sunday tza now = now - getDay tza now * msPerDay"

definition bucket_start :: "int \<Rightarrow> int \<Rightarrow> nat \<Rightarrow> int" where
  \<comment> \<open>local midnight of the first day of the month \<open>i\<close> months before the month of
      \<open>anchor\<close>\<close>
  "bucket_start tza anchor i =
     new_Date tza (getFullYear tza anchor) (getMonth tza anchor - int i) 1"

definition window_end :: "int \<Rightarrow> int \<Rightarrow> int" where
  \<comment> \<open>local midnight of the first day of the month after the month of \<open>anchor\<close>\<close>
  "window_end tza anchor =
     new_Date tza (getFullYear tza anchor) (getMonth tza anchor + 1) 1"

definition in_window :: "date_parser \<Rightarrow> int \<Rightarrow> int \<Rightarrow> profile \<Rightarrow> bool" where
  \<comment> \<open>the record was created at or after \<open>lo\<close> and before \<open>hi\<close>\<close>
  "in_window parse lo hi user =
     (date_ge (parse (created_at user)) lo \<and> date_lt (parse (created_at user)) hi)"

definition initial_statistics_state :: statistics_state where
  "initial_statistics_state =
     \<lparr> user_stats = \<lparr> totalUsers = 0, totalStudents = 0, totalAdmins = 0,
         newUsersThisMonth = 0, newUsersThisWeek = 0, recentUsers = [], monthlyGrowth = [] \<rparr>,
       u_loading = True \<rparr>"

section \<open>Bookkeeping of rounding errors\<close>


section \<open>Properties of the number model\<close>

subsection \<open>Rounding to a double keeps the sign and is exact on integers below \<open>2^53\<close>\<close>

lemma ilog2_le:
  assumes "x \<noteq> 0"
  shows "2 powi (ilog2 x) \<le> \<bar>x\<bar>"
proof -
  obtain p q where pq: "quotient_of \<bar>x\<bar> = (p, q)" by (cases "quotient_of \<bar>x\<bar>")
  have q: "0 < q" using pq by (rule quotient_of_denom_pos)
  have x: "\<bar>x\<bar> = of_int p / of_int q" using pq by (rule quotient_of_div)
  have p: "0 < p"
  proof (rule ccontr)
    assume "\<not> 0 < p"
    then have "of_int p / (of_int q :: rat) \<le> 0" using q by (simp add: divide_le_0_iff)
    with x assms show False by simp
  qed
  have bp: "(2::rat) ^ nat (bitlen p - 1) \<le> of_int p"
    using bitlen_bounds[OF p] by (metis of_int_le_iff of_int_numeral of_int_power)
  have bq: "of_int q < (2::rat) ^ nat (bitlen q)"
    using bitlen_bounds[OF q] by (metis of_int_less_iff of_int_numeral of_int_power)
  have p1: "1 \<le> bitlen p" using p by (simp add: bitlen_alt_def)
  have q1: "1 \<le> bitlen q" using q by (simp add: bitlen_alt_def)
  have e: "(2::rat) powi (bitlen p - bitlen q - 1) = 2 ^ nat (bitlen p - 1) / 2 ^ nat (bitlen q)"
  proof -
    have "bitlen p - bitlen q - 1 = (bitlen p - 1) - bitlen q" by simp
    then have "(2::rat) powi (bitlen p - bitlen q - 1) = 2 powi (bitlen p - 1) / 2 powi (bitlen q)"
      by (simp add: power_int_diff)
    then show ?thesis using p1 q1 by (simp add: power_int_def)
  qed
  have "(2::rat) ^ nat (bitlen p - 1) / 2 ^ nat (bitlen q) \<le> of_int p / of_int q"
    using bp bq q p by (intro frac_le) simp_all
  then have low: "(2::rat) powi (bitlen p - bitlen q - 1) \<le> \<bar>x\<bar>" using e x by simp
  show ?thesis
    unfolding ilog2_def using pq low by (simp add: Let_def)
qed

lemma round_half_even_bounds:
  "\<lfloor>q\<rfloor> \<le> round_half_even q \<and> round_half_even q \<le> \<lfloor>q\<rfloor> + 1"
  by (simp add: round_half_even_def Let_def)

lemma round_half_even_of_int [simp]: "round_half_even (of_int n) = n"
  by (simp add: round_half_even_def)

lemma scaled_ge:
  assumes "x \<noteq> 0"
  shows "2 ^ 52 \<le> \<bar>x\<bar> * 2 powi (- (ilog2 x - 52))"
proof -
  define s :: rat where "s = 2 powi (- (ilog2 x - 52))"
  define l :: rat where "l = 2 powi (ilog2 x)"
  have s: "0 < s" by (simp add: s_def zero_less_power_int)
  have "l * s = 2 powi (ilog2 x + (- (ilog2 x - 52)))"
    unfolding l_def s_def by (rule power_int_add[symmetric]) simp
  also have "\<dots> = 2 ^ 52" by simp
  finally have eq: "l * s = 2 ^ 52" .
  have "l \<le> \<bar>x\<bar>" unfolding l_def by (rule ilog2_le[OF assms])
  then have "l * s \<le> \<bar>x\<bar> * s" using s by (intro mult_right_mono) simp_all
  then have "2 ^ 52 \<le> \<bar>x\<bar> * s" by (simp only: eq)
  then show ?thesis by (simp only: s_def)
qed

lemma fl_pos:
  assumes "0 < x"
  shows "0 < fl x"
proof -
  let ?y = "x * 2 powi (- (ilog2 x - 52))"
  have "2 ^ 52 \<le> ?y" using scaled_ge[of x] assms by simp
  then have "(1::rat) \<le> ?y" by simp
  then have "1 \<le> \<lfloor>?y\<rfloor>" by (simp add: le_floor_iff)
  then have "0 < round_half_even ?y" using round_half_even_bounds[of ?y] by linarith
  then have "(0::rat) < of_int (round_half_even ?y) * 2 powi (ilog2 x - 52)"
    by (simp add: zero_less_power_int)
  then show ?thesis using assms by (simp add: fl_def Let_def)
qed

lemma fl_neg:
  assumes "x < 0"
  shows "fl x < 0"
proof -
  let ?y = "x * 2 powi (- (ilog2 x - 52))"
  have "2 ^ 52 \<le> \<bar>x\<bar> * 2 powi (- (ilog2 x - 52))" using scaled_ge[of x] assms by simp
  then have "?y \<le> - (2 ^ 52)" using assms by (simp add: abs_if)
  then have "?y < - 1" by simp
  then have "\<lfloor>?y\<rfloor> < - 1" by (simp add: floor_less_iff)
  then have "round_half_even ?y < 0" using round_half_even_bounds[of ?y] by linarith
  then have "of_int (round_half_even ?y) * 2 powi (ilog2 x - 52) < (0::rat)"
    by (simp add: mult_less_0_iff zero_less_power_int)
  then show ?thesis using assms by (simp add: fl_def Let_def)
qed

lemma fl_zero [simp]: "fl 0 = 0"
  by (simp add: fl_def)

lemma fl_eq_0_iff: "fl x = 0 \<longleftrightarrow> x = 0"
  using fl_pos[of x] fl_neg[of x] by (cases "x = 0") (auto simp: neq_iff)

lemma fl_pos_iff: "0 < fl x \<longleftrightarrow> 0 < x"
  using fl_pos[of x] fl_neg[of x] by (cases "x = 0") (auto simp: neq_iff not_less)

lemma ilog2_less_53:
  assumes "x \<noteq> 0" "\<bar>x\<bar> < 2 ^ 53"
  shows "ilog2 x < 53"
proof (rule ccontr)
  assume "\<not> ilog2 x < 53"
  then have "53 \<le> ilog2 x" by simp
  then have "(2::rat) powi 53 \<le> 2 powi (ilog2 x)"
    by (intro power_int_increasing) simp_all
  with ilog2_le[OF assms(1)] assms(2) show False by simp
qed

lemma fl_of_int_exact:
  assumes "\<bar>k\<bar> < 2 ^ 53"
  shows "fl (of_int k) = of_int k"
proof (cases "k = 0")
  case True
  then show ?thesis by simp
next
  case False
  define x :: rat where "x = of_int k"
  have x0: "x \<noteq> 0" using False by (simp add: x_def)
  have "\<bar>x\<bar> = of_int \<bar>k\<bar>" by (simp add: x_def)
  also have "\<dots> < of_int (2 ^ 53)" using assms by (simp only: of_int_less_iff)
  finally have xb: "\<bar>x\<bar> < 2 ^ 53" by simp
  define n where "n = nat (52 - ilog2 x)"
  have e: "ilog2 x \<le> 52" using ilog2_less_53[OF x0 xb] by simp
  then have n: "- (ilog2 x - 52) = int n" by (simp add: n_def)
  have sc: "x * 2 powi (- (ilog2 x - 52)) = of_int (k * 2 ^ n)"
    by (simp only: n power_int_of_nat) (simp add: x_def)
  have "ilog2 x - 52 = - int n" using n by linarith
  then have "(2::rat) powi (ilog2 x - 52) = 2 powi (- int n)" by (rule arg_cong)
  also have "\<dots> = inverse (2 ^ n)" by (simp only: power_int_minus power_int_of_nat)
  finally have inv: "(2::rat) powi (ilog2 x - 52) = inverse (2 ^ n)" .
  have "fl x = of_int (round_half_even (x * 2 powi (- (ilog2 x - 52)))) * 2 powi (ilog2 x - 52)"
    using x0 by (simp add: fl_def Let_def)
  also have "\<dots> = of_int (k * 2 ^ n) * inverse (2 ^ n)"
    by (simp only: sc round_half_even_of_int inv)
  also have "\<dots> = of_int k" by simp
  finally show ?thesis by (simp add: x_def)
qed

lemma fl_numeral [simp]:
  "(numeral n :: int) < 2 ^ 53 \<Longrightarrow> fl (numeral n) = numeral n"
  using fl_of_int_exact[of "numeral n"] by simp

lemma fl_1 [simp]: "fl 1 = 1"
  using fl_of_int_exact[of 1] by simp

lemma floor_rat_numeral [simp]:
  "\<lfloor>numeral a / numeral b :: rat\<rfloor> = numeral a div numeral b"
  using floor_divide_of_int_eq[of "numeral a" "numeral b", where ?'a = rat] by simp

lemma floor_half [simp]: "\<lfloor>(1::rat) / 2\<rfloor> = 0"
  by (rule floor_unique) simp_all

subsection \<open>Sums, means and finiteness\<close>

lemma foldl_js_add_map:
  "foldl (\<lambda>sum x. js_add sum (f x)) z xs = foldl js_add z (map f xs)"
  by (induction xs arbitrary: z) simp_all

lemma js_add_NaN_right [simp]: "js_add x NaN = NaN"
  by (cases x) simp_all

lemma foldl_js_add_NaN [simp]: "foldl js_add NaN xs = NaN"
  by (induction xs) simp_all

lemma foldl_js_add_has_NaN: "NaN \<in> set xs \<Longrightarrow> foldl js_add z xs = NaN"
  by (induction xs arbitrary: z) auto

lemma mean_has_NaN: "NaN \<in> set xs \<Longrightarrow> js_mean xs = NaN"
  by (auto simp: js_mean_def js_sum_def foldl_js_add_has_NaN)

lemma isFinite_js_add: "isFinite a \<Longrightarrow> isFinite b \<Longrightarrow> isFinite (js_add a b)"
  by (cases a; cases b) simp_all

lemma isFinite_foldl_js_add:
  "isFinite z \<Longrightarrow> \<forall>x\<in>set xs. isFinite x \<Longrightarrow> isFinite (foldl js_add z xs)"
  by (induction xs arbitrary: z) (simp_all add: isFinite_js_add)

lemma isFinite_js_sum: "\<forall>x\<in>set xs. isFinite x \<Longrightarrow> isFinite (js_sum xs)"
  unfolding js_sum_def by (rule isFinite_foldl_js_add) simp_all

lemma isFinite_Math_round: "isFinite a \<Longrightarrow> isFinite (Math_round a)"
  by (cases a) simp_all

lemma isFinite_div_length: "isFinite a \<Longrightarrow> 0 < n \<Longrightarrow> isFinite (js_div a (length_number n))"
  by (cases a) (simp_all add: length_number_def)

lemma isFinite_mean: "\<forall>x\<in>set xs. isFinite x \<Longrightarrow> isFinite (js_mean xs)"
  by (simp add: js_mean_def isFinite_js_sum isFinite_div_length)

lemma isFinite_round_1dp: "isFinite a \<Longrightarrow> isFinite (js_round_1dp a)"
  by (cases a) (simp_all add: js_round_1dp_def)

lemma isFinite_json_number: "isFinite (json_number i)"
  by (simp add: json_number_def)

lemma percentage_of_finite:
  assumes "t \<noteq> 0"
  shows "js_percentage s t = Num (fl (fl (fl (of_int s) / fl (of_int t)) * 100))"
  using assms by (simp add: js_percentage_def json_number_def fl_eq_0_iff)

lemma isFinite_percentage_of: "t \<noteq> 0 \<Longrightarrow> isFinite (js_percentage s t)"
  by (simp add: percentage_of_finite)

lemma percentage_of_0_0: "js_percentage 0 0 = NaN"
  by (simp add: js_percentage_def json_number_def)

lemma half_up_floor: "half_up v \<lfloor>v + 1/2\<rfloor>"
  unfolding half_up_def by linarith

lemma half_up_iff: "half_up v p \<longleftrightarrow> p = \<lfloor>v + 1/2\<rfloor>"
  unfolding half_up_def by linarith

subsection \<open>Sample evaluations in double precision\<close>











section \<open>Rounding errors\<close>






lemma roundoff_0 [simp]: "roundoff 0 = 0"
  by (simp add: roundoff_def)


lemma roundoff_add: "roundoff (j + k) = roundoff j + roundoff k + roundoff j * roundoff k"
  by (simp add: roundoff_def power_add algebra_simps)




















lemma half_up_near_0: "half_up_near 0 e p \<longleftrightarrow> half_up e p"
  by (simp add: half_up_near_def half_up_def)



section \<open>QuizHistory: percentage, pass threshold and rollup\<close>

lemma history_row_percentage:
  "h_percentage (history_row a) =
     Math_round (js_percentage (attempt_score a) (attempt_total_questions a))"
  by (simp add: history_row_def js_percentage_def Let_def)

lemma history_row_isPassed:
  "isPassed (history_row a) = js_ge (h_percentage (history_row a)) (Num 70)"
  by (simp add: history_row_def Let_def)

lemma quiz_stats_totalQuizzes: "totalQuizzes (quiz_stats hs) = length hs"
  by (simp add: quiz_stats_def Let_def)


lemma quiz_stats_totalScore: "totalScore (quiz_stats hs) = js_sum (map h_percentage hs)"
  by (simp add: quiz_stats_def Let_def js_sum_def foldl_js_add_map[symmetric])

lemma quiz_stats_averageScore:
  "h_averageScore (quiz_stats hs) = Math_round (js_mean (map h_percentage hs))"
proof (cases "hs = []")
  case True
  then show ?thesis by (simp add: quiz_stats_def js_mean_def Let_def)
next
  case False
  then show ?thesis
    by (simp add: quiz_stats_def Let_def js_sum_def js_mean_def foldl_js_add_map[symmetric])
qed




















section \<open>QuizAnalytics: the aggregates of a quiz\<close>

lemma quiz_analytics_averageScore:
  "averageScore (quiz_analytics quiz)
     = js_round_1dp (js_mean (map (\<lambda>a. json_number (qa_score a)) (attempts_of quiz)))"
proof (cases "attempts_of quiz = []")
  case True
  then show ?thesis
    by (simp add: quiz_analytics_def attempts_of_def js_mean_def js_round_1dp_def Let_def)
next
  case False
  then show ?thesis
    by (simp add: quiz_analytics_def attempts_of_def js_mean_def js_round_1dp_def Let_def
        js_sum_def foldl_js_add_map[symmetric])
qed

lemma quiz_analytics_completionRate:
  "completionRate (quiz_analytics quiz)
     = Math_round (js_mean (map (\<lambda>a. js_percentage (qa_score a) (qa_total_questions a))
                      (attempts_of quiz)))"
proof (cases "attempts_of quiz = []")
  case True
  then show ?thesis
    by (simp add: quiz_analytics_def attempts_of_def js_mean_def Let_def)
next
  case False
  then show ?thesis
    by (simp add: quiz_analytics_def attempts_of_def js_mean_def Let_def js_percentage_def
        js_sum_def foldl_js_add_map[symmetric])
qed

lemma quiz_analytics_students:
  "students (quiz_analytics quiz) = map student_of (attempts_of quiz)"
  by (simp add: quiz_analytics_def attempts_of_def Let_def)


lemma student_percentage:
  "st_percentage (student_of a) = Math_round (js_percentage (qa_score a) (qa_total_questions a))"
  by (simp add: student_of_def js_percentage_def)

lemma json_number_numeral [simp]:
  "(numeral n :: int) < 2 ^ 53 \<Longrightarrow> json_number (numeral n) = Num (numeral n)"
  by (simp add: json_number_def)












text \<open>
  Claim C9. The division by \<open>total_questions\<close> is unguarded. An attempt with
  \<open>total_questions = 0\<close> and \<open>score = 0\<close> has the percentage NaN and does not pass; it
  still counts in \<open>totalQuizzes\<close>, and the rollup's \<open>averageScore\<close> of any list holding it
  is NaN. When every attempt has \<open>total_questions > 0\<close>, every derived percentage and the
  rollup values are finite, in the history of a user and in the analytics of a quiz.
\<close>

theorem division_by_zero_total_questions:
  "(\<forall>a. attempt_score a = 0 \<and> attempt_total_questions a = 0 \<longrightarrow>
       h_percentage (history_row a) = NaN \<and> \<not> isPassed (history_row a))
   \<and> (\<forall>as a. a \<in> set as \<and> attempt_score a = 0 \<and> attempt_total_questions a = 0 \<longrightarrow>
       totalQuizzes (quiz_stats (map history_row as)) = length as
       \<and> h_averageScore (quiz_stats (map history_row as)) = NaN)
   \<and> (\<forall>as. (\<forall>a\<in>set as. 0 < attempt_total_questions a) \<longrightarrow>
       (\<forall>h\<in>set (map history_row as). isFinite (h_percentage h))
       \<and> isFinite (totalScore (quiz_stats (map history_row as)))
       \<and> isFinite (h_averageScore (quiz_stats (map history_row as))))
   \<and> (\<forall>quiz. (\<forall>a\<in>set (attempts_of quiz). 0 < qa_total_questions a) \<longrightarrow>
       (\<forall>st\<in>set (students (quiz_analytics quiz)). isFinite (st_percentage st))
       \<and> isFinite (averageScore (quiz_analytics quiz))
       \<and> isFinite (completionRate (quiz_analytics quiz)))"
proof (intro conjI allI impI)
  fix a :: attempt_row
  assume z: "attempt_score a = 0 \<and> attempt_total_questions a = 0"
  then show p: "h_percentage (history_row a) = NaN"
    by (simp add: history_row_percentage percentage_of_0_0)
  show "\<not> isPassed (history_row a)"
    by (simp add: history_row_isPassed p)
next
  fix as :: "attempt_row list" and a
  assume a: "a \<in> set as \<and> attempt_score a = 0 \<and> attempt_total_questions a = 0"
  show "totalQuizzes (quiz_stats (map history_row as)) = length as"
    by (simp add: quiz_stats_totalQuizzes)
  from a have "h_percentage (history_row a) = NaN"
    by (simp add: history_row_percentage percentage_of_0_0)
  with a have "NaN \<in> set (map h_percentage (map history_row as))"
    by (force simp: image_iff)
  then show "h_averageScore (quiz_stats (map history_row as)) = NaN"
    by (simp add: quiz_stats_averageScore mean_has_NaN)
next
  fix as :: "attempt_row list"
  assume pos: "\<forall>a\<in>set as. 0 < attempt_total_questions a"
  have fin: "\<forall>x\<in>set (map h_percentage (map history_row as)). isFinite x"
    using pos by (auto simp: history_row_percentage isFinite_Math_round isFinite_percentage_of)
  then show "\<forall>h\<in>set (map history_row as). isFinite (h_percentage h)"
    by simp
  show "isFinite (totalScore (quiz_stats (map history_row as)))"
    unfolding quiz_stats_totalScore by (rule isFinite_js_sum[OF fin])
  show "isFinite (h_averageScore (quiz_stats (map history_row as)))"
    unfolding quiz_stats_averageScore by (rule isFinite_Math_round[OF isFinite_mean[OF fin]])
next
  fix quiz :: quiz_row
  assume pos: "\<forall>a\<in>set (attempts_of quiz). 0 < qa_total_questions a"
  show "\<forall>st\<in>set (students (quiz_analytics quiz)). isFinite (st_percentage st)"
    using pos by (auto simp: quiz_analytics_students student_percentage
        isFinite_Math_round isFinite_percentage_of)
  show "isFinite (averageScore (quiz_analytics quiz))"
    unfolding quiz_analytics_averageScore
    by (intro isFinite_round_1dp isFinite_mean) (simp add: isFinite_json_number)
  show "isFinite (completionRate (quiz_analytics quiz))"
    unfolding quiz_analytics_completionRate
    using pos by (intro isFinite_Math_round isFinite_mean) (auto simp: isFinite_percentage_of)
qed

theorem division_by_zero_total_questions_witness:
  "h_percentage (history_row (an_attempt 0 0)) = NaN
   \<and> \<not> isPassed (history_row (an_attempt 0 0))
   \<and> totalQuizzes (quiz_stats (map history_row [an_attempt 7 10, an_attempt 0 0])) = 2
   \<and> h_averageScore (quiz_stats (map history_row [an_attempt 7 10, an_attempt 0 0])) = NaN
   \<and> isFinite (h_averageScore (quiz_stats (map history_row [an_attempt 7 10, an_attempt 2 10])))"
proof -
  have "\<forall>a\<in>set [an_attempt 7 10, an_attempt 2 10]. 0 < attempt_total_questions a"
    by (simp add: an_attempt_def)
  moreover have "an_attempt 0 0 \<in> set [an_attempt 7 10, an_attempt 0 0]
      \<and> attempt_score (an_attempt 0 0) = 0 \<and> attempt_total_questions (an_attempt 0 0) = 0"
    by (simp add: an_attempt_def)
  moreover have "length [an_attempt 7 10, an_attempt 0 0] = 2" by simp
  ultimately show ?thesis
    using division_by_zero_total_questions by metis
qed

section \<open>ContentManagement: merge, failures and edit\<close>

subsection \<open>The stable sort\<close>

lemma length_insert_by [simp]: "length (insert_by cmp x ys) = Suc (length ys)"
  by (induction ys) simp_all

lemma length_Array_sort [simp]: "length (Array_sort cmp xs) = length xs"
  unfolding Array_sort_def by (induction xs) simp_all

lemma set_insert_by [simp]: "set (insert_by cmp x ys) = insert x (set ys)"
  by (induction ys) auto

lemma set_Array_sort [simp]: "set (Array_sort cmp xs) = set xs"
  unfolding Array_sort_def by (induction xs) simp_all

lemma Array_sort_Cons: "Array_sort cmp (x # xs) = insert_by cmp x (Array_sort cmp xs)"
  by (simp add: Array_sort_def)

lemma Array_sort_Nil [simp]: "Array_sort cmp [] = []"
  by (simp add: Array_sort_def)

text \<open>
  A comparison function that orders by a key, descending: \<open>cmp a b > 0\<close> exactly when
  the key of \<open>a\<close> is the smaller one.
\<close>

lemma sorted_insert_by:
  assumes "\<And>y. y \<in> set ys \<Longrightarrow> js_gt (cmp x y) (Num 0) \<longleftrightarrow> key x < (key y :: int)"
    and "sorted_wrt (\<lambda>a b. key b \<le> key a) ys"
  shows "sorted_wrt (\<lambda>a b. key b \<le> key a) (insert_by cmp x ys)"
  using assms
proof (induction ys)
  case Nil
  then show ?case by simp
next
  case (Cons y ys)
  show ?case
  proof (cases "key x < key y")
    case True
    then have gt: "js_gt (cmp x y) (Num 0)" using Cons.prems(1)[of y] by simp
    have "sorted_wrt (\<lambda>a b. key b \<le> key a) (insert_by cmp x ys)"
      using Cons.prems by (intro Cons.IH) simp_all
    moreover have "\<forall>z\<in>set (insert_by cmp x ys). key z \<le> key y"
      using True Cons.prems(2) by auto
    ultimately show ?thesis using gt by simp
  next
    case False
    then have ngt: "\<not> js_gt (cmp x y) (Num 0)" using Cons.prems(1)[of y] by simp
    have "\<forall>z\<in>set (y # ys). key z \<le> key x"
      using False Cons.prems(2) by auto
    then show ?thesis using ngt Cons.prems(2) by simp
  qed
qed

lemma filter_insert_by:
  assumes "\<And>y. y \<in> set ys \<Longrightarrow> js_gt (cmp x y) (Num 0) \<longleftrightarrow> key x < (key y :: int)"
  shows "filter (\<lambda>z. key z = k) (insert_by cmp x ys)
           = (if key x = k then x # filter (\<lambda>z. key z = k) ys
              else filter (\<lambda>z. key z = k) ys)"
  using assms
proof (induction ys)
  case Nil
  then show ?case by simp
next
  case (Cons y ys)
  have IH: "filter (\<lambda>z. key z = k) (insert_by cmp x ys)
           = (if key x = k then x # filter (\<lambda>z. key z = k) ys
              else filter (\<lambda>z. key z = k) ys)"
    using Cons.prems by (intro Cons.IH) simp_all
  show ?case
  proof (cases "key x < key y")
    case True
    then have "js_gt (cmp x y) (Num 0)" using Cons.prems[of y] by simp
    then show ?thesis using True IH by auto
  next
    case False
    then have "\<not> js_gt (cmp x y) (Num 0)" using Cons.prems[of y] by simp
    then show ?thesis by simp
  qed
qed

lemma sorted_Array_sort:
  assumes "\<And>x y. x \<in> set xs \<Longrightarrow> y \<in> set xs \<Longrightarrow>
             js_gt (cmp x y) (Num 0) \<longleftrightarrow> key x < (key y :: int)"
  shows "sorted_wrt (\<lambda>a b. key b \<le> key a) (Array_sort cmp xs)"
  using assms
proof (induction xs)
  case Nil
  then show ?case by simp
next
  case (Cons x xs)
  have "sorted_wrt (\<lambda>a b. key b \<le> key a) (Array_sort cmp xs)"
    using Cons.prems by (intro Cons.IH) simp_all
  then show ?case
    unfolding Array_sort_Cons using Cons.prems by (intro sorted_insert_by) simp_all
qed

lemma stable_Array_sort:
  assumes "\<And>x y. x \<in> set xs \<Longrightarrow> y \<in> set xs \<Longrightarrow>
             js_gt (cmp x y) (Num 0) \<longleftrightarrow> key x < (key y :: int)"
  shows "filter (\<lambda>z. key z = k) (Array_sort cmp xs) = filter (\<lambda>z. key z = k) xs"
  using assms
proof (induction xs)
  case Nil
  then show ?case by simp
next
  case (Cons x xs)
  have IH: "filter (\<lambda>z. key z = k) (Array_sort cmp xs) = filter (\<lambda>z. key z = k) xs"
    using Cons.prems by (intro Cons.IH) simp_all
  have "filter (\<lambda>z. key z = k) (insert_by cmp x (Array_sort cmp xs))
          = (if key x = k then x # filter (\<lambda>z. key z = k) (Array_sort cmp xs)
             else filter (\<lambda>z. key z = k) (Array_sort cmp xs))"
    using Cons.prems by (intro filter_insert_by) simp_all
  then show ?case
    unfolding Array_sort_Cons using IH by simp
qed

subsection \<open>The comparison by creation time\<close>

lemma by_created_desc_valid:
  assumes "parse (createdAt a) = Some ta" "parse (createdAt b) = Some tb"
  shows "js_gt (by_created_desc parse a b) (Num 0) \<longleftrightarrow> ta < tb"
proof -
  have "by_created_desc parse a b = Num (fl (of_int tb + - of_int ta))"
    using assms by (simp add: by_created_desc_def js_sub_def)
  moreover have "0 < fl (of_int tb + - of_int ta :: rat) \<longleftrightarrow> ta < tb"
    by (simp add: fl_pos_iff)
  ultimately show ?thesis by simp
qed

lemma by_created_desc_key:
  assumes "parse (createdAt a) \<noteq> None" "parse (createdAt b) \<noteq> None"
  shows "js_gt (by_created_desc parse a b) (Num 0)
           \<longleftrightarrow> created_time parse a < created_time parse b"
  using assms by (auto simp: created_time_def by_created_desc_valid)

lemma newer_or_equal_key:
  assumes "parse (createdAt a) \<noteq> None" "parse (createdAt b) \<noteq> None"
  shows "newer_or_equal parse a b \<longleftrightarrow> created_time parse b \<le> created_time parse a"
  using assms by (auto simp: newer_or_equal_def created_time_def)

lemma sorted_wrt_cong_set:
  "(\<And>x y. x \<in> set xs \<Longrightarrow> y \<in> set xs \<Longrightarrow> P x y = Q x y) \<Longrightarrow>
     sorted_wrt P xs = sorted_wrt Q xs"
  by (induction xs) auto

lemma fetchAllContent_delivered:
  "fetchAllContent parse s (delivered books) (delivered videos) (delivered courses)
       (delivered quizzes)
     = s\<lparr> content := Array_sort (by_created_desc parse)
            (merged_content books videos courses quizzes), c_loading := False \<rparr>"
  by (simp add: delivered_def data_or_empty_def merged_content_def Let_def)

subsection \<open>The merge\<close>

text \<open>
  Claim C6. When all four queries deliver their rows, the content list has as many
  entries as the four collections together. When every creation timestamp is valid, the
  list is sorted non-increasing by creation time, and the entries that share a creation
  time stand in the order of the merge (books, videos, courses, quizzes, each in the
  order delivered).
\<close>

theorem content_merge_sorted:
  "length (content (fetchAllContent parse s (delivered books) (delivered videos)
       (delivered courses) (delivered quizzes)))
     = length books + length videos + length courses + length quizzes
   \<and> ((\<forall>x\<in>set (merged_content books videos courses quizzes). parse (createdAt x) \<noteq> None) \<longrightarrow>
        sorted_wrt (newer_or_equal parse)
          (content (fetchAllContent parse s (delivered books) (delivered videos)
             (delivered courses) (delivered quizzes)))
        \<and> (\<forall>t. filter (\<lambda>x. parse (createdAt x) = Some t)
                 (content (fetchAllContent parse s (delivered books) (delivered videos)
                    (delivered courses) (delivered quizzes)))
               = filter (\<lambda>x. parse (createdAt x) = Some t)
                   (merged_content books videos courses quizzes)))"
proof (intro conjI impI allI)
  let ?m = "merged_content books videos courses quizzes"
  let ?c = "content (fetchAllContent parse s (delivered books) (delivered videos)
       (delivered courses) (delivered quizzes))"
  have c: "?c = Array_sort (by_created_desc parse) ?m"
    by (simp add: fetchAllContent_delivered)
  show "length ?c = length books + length videos + length courses + length quizzes"
    by (simp add: c merged_content_def)
  {
    assume valid: "\<forall>x\<in>set ?m. parse (createdAt x) \<noteq> None"
    have cmp: "\<And>x y. x \<in> set ?m \<Longrightarrow> y \<in> set ?m \<Longrightarrow>
        js_gt (by_created_desc parse x y) (Num 0) \<longleftrightarrow> created_time parse x < created_time parse y"
      using valid by (intro by_created_desc_key) simp_all
    have "sorted_wrt (\<lambda>a b. created_time parse b \<le> created_time parse a) ?c"
      unfolding c using cmp by (rule sorted_Array_sort)
    moreover have "sorted_wrt (newer_or_equal parse) ?c
        = sorted_wrt (\<lambda>a b. created_time parse b \<le> created_time parse a) ?c"
      using valid by (intro sorted_wrt_cong_set newer_or_equal_key) (simp_all add: c)
    ultimately show "sorted_wrt (newer_or_equal parse) ?c" by simp
    fix t
    have k: "\<And>xs. set xs \<subseteq> set ?m \<Longrightarrow>
        filter (\<lambda>x. parse (createdAt x) = Some t) xs
          = filter (\<lambda>x. created_time parse x = t) xs"
      using valid by (intro filter_cong refl) (force simp: created_time_def split: option.splits)
    have "filter (\<lambda>x. created_time parse x = t) ?c = filter (\<lambda>x. created_time parse x = t) ?m"
      unfolding c using cmp by (rule stable_Array_sort)
    then show "filter (\<lambda>x. parse (createdAt x) = Some t) ?c
        = filter (\<lambda>x. parse (createdAt x) = Some t) ?m"
      using k[of ?c] k[of ?m] by (simp add: c)
  }
qed

theorem content_merge_sorted_witness:
  "length (content (fetchAllContent sample_parse initial_content_state
       (delivered [a_row ''b1'' ''2025-09-28T08:00:00Z''])
       (delivered [a_row ''v1'' ''2025-10-01T06:00:00Z''])
       (delivered [a_row ''c1'' ''2025-09-28T08:00:00Z''])
       (delivered []))) = 3
   \<and> sorted_wrt (newer_or_equal sample_parse)
        (content (fetchAllContent sample_parse initial_content_state
           (delivered [a_row ''b1'' ''2025-09-28T08:00:00Z''])
           (delivered [a_row ''v1'' ''2025-10-01T06:00:00Z''])
           (delivered [a_row ''c1'' ''2025-09-28T08:00:00Z''])
           (delivered [])))
   \<and> filter (\<lambda>x. sample_parse (createdAt x) = Some 1759046400000)
        (content (fetchAllContent sample_parse initial_content_state
           (delivered [a_row ''b1'' ''2025-09-28T08:00:00Z''])
           (delivered [a_row ''v1'' ''2025-10-01T06:00:00Z''])
           (delivered [a_row ''c1'' ''2025-09-28T08:00:00Z''])
           (delivered [])))
       = [content_item Book (a_row ''b1'' ''2025-09-28T08:00:00Z''),
          content_item Course (a_row ''c1'' ''2025-09-28T08:00:00Z'')]"
proof -
  let ?m = "merged_content [a_row ''b1'' ''2025-09-28T08:00:00Z'']
      [a_row ''v1'' ''2025-10-01T06:00:00Z''] [a_row ''c1'' ''2025-09-28T08:00:00Z''] []"
  have valid: "\<forall>x\<in>set ?m. sample_parse (createdAt x) \<noteq> None"
    by (simp add: merged_content_def content_item_def a_row_def sample_parse_def)
  have f: "filter (\<lambda>x. sample_parse (createdAt x) = Some 1759046400000) ?m
      = [content_item Book (a_row ''b1'' ''2025-09-28T08:00:00Z''),
         content_item Course (a_row ''c1'' ''2025-09-28T08:00:00Z'')]"
    by (simp add: merged_content_def content_item_def a_row_def sample_parse_def)
  show ?thesis
    using content_merge_sorted[of sample_parse initial_content_state
        "[a_row ''b1'' ''2025-09-28T08:00:00Z'']" "[a_row ''v1'' ''2025-10-01T06:00:00Z'']"
        "[a_row ''c1'' ''2025-09-28T08:00:00Z'']" "[]"] valid f
    by simp
qed

subsection \<open>Failing sub-fetches\<close>

lemma fetchAllContent_resolved:
  assumes "\<not> is_rejected b" "\<not> is_rejected v" "\<not> is_rejected c" "\<not> is_rejected q"
  shows "fetchAllContent parse s b v c q
     = s\<lparr> content := Array_sort (by_created_desc parse)
            (merged_content (rows_or_empty b) (rows_or_empty v) (rows_or_empty c)
               (rows_or_empty q)), c_loading := False \<rparr>"
  using assms
  by (cases b; cases v; cases c; cases q) (simp_all add: merged_content_def Let_def)

lemma fetchAllContent_rejected:
  assumes "is_rejected b \<or> is_rejected v \<or> is_rejected c \<or> is_rejected q"
  shows "fetchAllContent parse s b v c q
     = s\<lparr> toasts := toasts s @ [fetch_failed_toast], c_loading := False \<rparr>"
  using assms
  by (cases b; cases v; cases c; cases q) simp_all

text \<open>
  Claim C7, as the code has it. When no promise of the four sub-fetches rejects, a
  sub-fetch that the store answers with an error and no data counts as an empty
  collection: the merge proceeds with the rows of the others, and no notification is
  surfaced. When at least one promise rejects, one error notification is surfaced and the
  content list stays as it was.
\<close>

theorem fetch_failure_contract:
  "(\<not> is_rejected b \<and> \<not> is_rejected v \<and> \<not> is_rejected c \<and> \<not> is_rejected q \<longrightarrow>
      content (fetchAllContent parse s b v c q)
        = Array_sort (by_created_desc parse)
            (merged_content (rows_or_empty b) (rows_or_empty v) (rows_or_empty c)
               (rows_or_empty q))
      \<and> toasts (fetchAllContent parse s b v c q) = toasts s
      \<and> \<not> c_loading (fetchAllContent parse s b v c q))
   \<and> (is_rejected b \<or> is_rejected v \<or> is_rejected c \<or> is_rejected q \<longrightarrow>
      content (fetchAllContent parse s b v c q) = content s
      \<and> toasts (fetchAllContent parse s b v c q) = toasts s @ [fetch_failed_toast]
      \<and> \<not> c_loading (fetchAllContent parse s b v c q))
   \<and> (\<forall>e. fetch_failed (refused e :: content_row list settled)
          \<and> \<not> is_rejected (refused e :: content_row list settled)
          \<and> rows_or_empty (refused e :: content_row list settled) = [])"
proof (intro conjI impI allI)
  assume "\<not> is_rejected b \<and> \<not> is_rejected v \<and> \<not> is_rejected c \<and> \<not> is_rejected q"
  then have r: "fetchAllContent parse s b v c q
     = s\<lparr> content := Array_sort (by_created_desc parse)
            (merged_content (rows_or_empty b) (rows_or_empty v) (rows_or_empty c)
               (rows_or_empty q)), c_loading := False \<rparr>"
    by (intro fetchAllContent_resolved) simp_all
  show "content (fetchAllContent parse s b v c q)
        = Array_sort (by_created_desc parse)
            (merged_content (rows_or_empty b) (rows_or_empty v) (rows_or_empty c)
               (rows_or_empty q))"
    by (simp add: r)
  show "toasts (fetchAllContent parse s b v c q) = toasts s" by (simp add: r)
  show "\<not> c_loading (fetchAllContent parse s b v c q)" by (simp add: r)
next
  assume "is_rejected b \<or> is_rejected v \<or> is_rejected c \<or> is_rejected q"
  then have r: "fetchAllContent parse s b v c q
     = s\<lparr> toasts := toasts s @ [fetch_failed_toast], c_loading := False \<rparr>"
    by (rule fetchAllContent_rejected)
  show "content (fetchAllContent parse s b v c q) = content s" by (simp add: r)
  show "toasts (fetchAllContent parse s b v c q) = toasts s @ [fetch_failed_toast]"
    by (simp add: r)
  show "\<not> c_loading (fetchAllContent parse s b v c q)" by (simp add: r)
qed (simp_all add: refused_def data_or_empty_def)

theorem fetch_failure_contract_witness:
  "content (fetchAllContent sample_parse initial_content_state (refused ''permission denied'')
       (delivered [a_row ''v1'' ''2025-10-01T06:00:00Z'']) (delivered []) (delivered []))
     = [content_item Video (a_row ''v1'' ''2025-10-01T06:00:00Z'')]
   \<and> toasts (fetchAllContent sample_parse initial_content_state (refused ''permission denied'')
       (delivered [a_row ''v1'' ''2025-10-01T06:00:00Z'']) (delivered []) (delivered [])) = []
   \<and> toasts (fetchAllContent sample_parse initial_content_state (Rejected ''network'')
       (delivered [a_row ''v1'' ''2025-10-01T06:00:00Z'']) (delivered []) (delivered []))
     = [fetch_failed_toast]"
proof -
  let ?v = "delivered [a_row ''v1'' ''2025-10-01T06:00:00Z'']"
  let ?e = "delivered [] :: content_row list settled"
  have a: "\<not> is_rejected (refused ''permission denied'' :: content_row list settled)
      \<and> \<not> is_rejected ?v \<and> \<not> is_rejected ?e \<and> \<not> is_rejected ?e"
    by (simp add: refused_def delivered_def)
  have m: "Array_sort (by_created_desc sample_parse)
      (merged_content (rows_or_empty (refused ''permission denied''))
         (rows_or_empty ?v) (rows_or_empty ?e) (rows_or_empty ?e))
      = [content_item Video (a_row ''v1'' ''2025-10-01T06:00:00Z'')]"
    by (simp add: merged_content_def refused_def delivered_def data_or_empty_def Array_sort_def)
  have b: "is_rejected (Rejected ''network'' :: content_row list settled)
      \<or> is_rejected ?v \<or> is_rejected ?e \<or> is_rejected ?e"
    by simp
  have t: "toasts initial_content_state = []" by (simp add: initial_content_state_def)
  show ?thesis
    using fetch_failure_contract[of "refused ''permission denied''" ?v ?e ?e sample_parse
        initial_content_state] a m
      fetch_failure_contract[of "Rejected ''network''" ?v ?e ?e sample_parse
        initial_content_state] b t
    by simp
qed

text \<open>
  Claim C7 as stated has every failing sub-fetch treated as an empty collection and
  reported. A sub-fetch that the store answers with an error is not reported, and when a
  sub-fetch promise rejects the rows that the others delivered are not merged.
\<close>

theorem failed_fetch_counterexample:
  "fetch_failed (refused ''permission denied'' :: content_row list settled)
   \<and> toasts (fetchAllContent sample_parse initial_content_state (refused ''permission denied'')
       (delivered [a_row ''v1'' ''2025-10-01T06:00:00Z'']) (delivered []) (delivered [])) = []
   \<and> fetch_failed (Rejected ''network'' :: content_row list settled)
   \<and> content (fetchAllContent sample_parse initial_content_state (Rejected ''network'')
       (delivered [a_row ''v1'' ''2025-10-01T06:00:00Z'']) (delivered []) (delivered [])) = []"
  by (simp add: refused_def delivered_def initial_content_state_def)

subsection \<open>The edit operation\<close>

lemma store_update_other:
  "tbl' \<noteq> tbl \<or> i' \<noteq> i \<Longrightarrow> store_update db tbl f i tbl' i' = db tbl' i'"
  by (auto simp: store_update_def split: option.splits)

lemma store_update_same:
  "store_update db tbl f i tbl i
     = map_option (\<lambda>r. r\<lparr> row_title := f_title f, row_description := Some (f_description f),
                            row_subject := Some (f_subject f) \<rparr>) (db tbl i)"
  by (simp add: store_update_def split: option.splits)

lemma handleSaveEdit_store:
  assumes "editingItem s = Some item"
  shows "snd (handleSaveEdit parse s db None refetch)
           = store_update db (tableName (c_type item)) (editForm s) (c_id item)"
  using assms by (simp add: handleSaveEdit_def Let_def split: prod.splits)

lemma handleSaveEdit_refused:
  "snd (handleSaveEdit parse s db (Some e) refetch) = db"
  by (simp add: handleSaveEdit_def Let_def split: option.splits)

lemma or_else_empty: "or_else d [] = (case d of None \<Rightarrow> [] | Some x \<Rightarrow> x)"
  by (cases d) simp_all

lemma listed_content_delivered:
  "listed_content parse s (\<lambda>t. delivered (rows t))
     = Array_sort (by_created_desc parse)
         (merged_content (rows ''books'') (rows ''videos'') (rows ''courses'') (rows ''quizzes''))"
  by (simp add: listed_content_def content_queries_def fetchAllContent_delivered)

lemma listed_item_origin:
  assumes "x \<in> set (listed_content parse s (\<lambda>t. delivered (rows t)))"
  shows "\<exists>row\<in>set (rows (tableName (c_type x))). x = content_item (c_type x) row"
proof -
  from assms have "x \<in> set (merged_content (rows ''books'') (rows ''videos'')
      (rows ''courses'') (rows ''quizzes''))"
    by (simp add: listed_content_delivered)
  then consider
      row where "row \<in> set (rows ''books'')" "x = content_item Book row"
    | row where "row \<in> set (rows ''videos'')" "x = content_item Video row"
    | row where "row \<in> set (rows ''courses'')" "x = content_item Course row"
    | row where "row \<in> set (rows ''quizzes'')" "x = content_item Quiz row"
    by (auto simp: merged_content_def)
  then show ?thesis
    by cases (auto simp: content_item_def)
qed

text \<open>
  Claim C10. Saving an edit writes the title, the description and the subject of the
  form into the one record with the edited item's identity in the collection of its
  variant: \<open>books\<close> for a book, \<open>videos\<close> for a video, \<open>courses\<close> for a course and
  \<open>quizzes\<close> for a quiz, which is the collection from whose rows the listing has made
  the item. Every other record, in this and in every other collection, and every other
  field of that record stay as they were, and a write that the store refuses changes
  nothing. The form opens with the item's title and with its description and subject, the
  empty string standing for an absent one; so saving the form as opened for an item
  without description and subject stores \<open>''\<close> in both fields.
\<close>

theorem edit_writes_three_fields:
  "(editingItem s = Some item \<longrightarrow>
      (\<forall>tbl i. tbl \<noteq> tableName (c_type item) \<or> i \<noteq> c_id item \<longrightarrow>
          snd (handleSaveEdit parse s db None refetch) tbl i = db tbl i)
      \<and> snd (handleSaveEdit parse s db None refetch) (tableName (c_type item)) (c_id item)
          = map_option (\<lambda>r. r\<lparr> row_title := f_title (editForm s),
                                 row_description := Some (f_description (editForm s)),
                                 row_subject := Some (f_subject (editForm s)) \<rparr>)
              (db (tableName (c_type item)) (c_id item)))
   \<and> snd (handleSaveEdit parse s db (Some e) refetch) = db
   \<and> editingItem (handleEdit s item) = Some item
   \<and> editForm (handleEdit s item)
       = \<lparr> f_title = c_title item,
           f_description = (case c_description item of None \<Rightarrow> [] | Some x \<Rightarrow> x),
           f_subject = (case c_subject item of None \<Rightarrow> [] | Some x \<Rightarrow> x) \<rparr>
   \<and> (c_description item = None \<and> c_subject item = None
        \<and> db (tableName (c_type item)) (c_id item) = Some r \<longrightarrow>
        snd (handleSaveEdit parse (handleEdit s item) db None refetch)
            (tableName (c_type item)) (c_id item)
          = Some (r\<lparr> row_title := c_title item, row_description := Some [],
                      row_subject := Some [] \<rparr>))
   \<and> tableName Book = ''books'' \<and> tableName Video = ''videos''
   \<and> tableName Course = ''courses'' \<and> tableName Quiz = ''quizzes''
   \<and> (\<forall>rows x. x \<in> set (listed_content parse s (\<lambda>t. delivered (rows t))) \<longrightarrow>
         (\<exists>row\<in>set (rows (tableName (c_type x))).
            x = content_item (c_type x) row \<and> c_id x = row_id row))"
proof (intro conjI impI allI)
  assume e: "editingItem s = Some item"
  show "snd (handleSaveEdit parse s db None refetch) (tableName (c_type item)) (c_id item)
          = map_option (\<lambda>r. r\<lparr> row_title := f_title (editForm s),
                                 row_description := Some (f_description (editForm s)),
                                 row_subject := Some (f_subject (editForm s)) \<rparr>)
              (db (tableName (c_type item)) (c_id item))"
    by (simp only: handleSaveEdit_store[OF e] store_update_same)
  fix tbl i
  assume "tbl \<noteq> tableName (c_type item) \<or> i \<noteq> c_id item"
  then show "snd (handleSaveEdit parse s db None refetch) tbl i = db tbl i"
    by (simp only: handleSaveEdit_store[OF e] store_update_other)
next
  show "snd (handleSaveEdit parse s db (Some e) refetch) = db"
    by (rule handleSaveEdit_refused)
next
  show "editingItem (handleEdit s item) = Some item"
    by (simp add: handleEdit_def)
next
  show "editForm (handleEdit s item)
       = \<lparr> f_title = c_title item,
           f_description = (case c_description item of None \<Rightarrow> [] | Some x \<Rightarrow> x),
           f_subject = (case c_subject item of None \<Rightarrow> [] | Some x \<Rightarrow> x) \<rparr>"
    by (simp add: handleEdit_def or_else_empty)
next
  assume a: "c_description item = None \<and> c_subject item = None
        \<and> db (tableName (c_type item)) (c_id item) = Some r"
  have e: "editingItem (handleEdit s item) = Some item" by (simp add: handleEdit_def)
  have f: "editForm (handleEdit s item)
      = \<lparr> f_title = c_title item, f_description = [], f_subject = [] \<rparr>"
    using a by (simp add: handleEdit_def)
  show "snd (handleSaveEdit parse (handleEdit s item) db None refetch)
            (tableName (c_type item)) (c_id item)
          = Some (r\<lparr> row_title := c_title item, row_description := Some [],
                      row_subject := Some [] \<rparr>)"
    using a by (simp add: handleSaveEdit_store[OF e] store_update_same f)
next
  fix rows x
  assume "x \<in> set (listed_content parse s (\<lambda>t. delivered (rows t)))"
  from listed_item_origin[OF this] obtain row where
    "row \<in> set (rows (tableName (c_type x)))" "x = content_item (c_type x) row"
    by blast
  moreover from this have "c_id x = row_id row"
    by (metis ContentItem.select_convs(1) content_item_def)
  ultimately show "\<exists>row\<in>set (rows (tableName (c_type x))).
            x = content_item (c_type x) row \<and> c_id x = row_id row"
    by blast
qed simp_all

text \<open>
  The theorem in a store whose four collections each hold a record with the identity
  \<open>b1\<close>. The listing of the videos has the item of the variant video; saving its form as
  opened writes the record \<open>b1\<close> of \<open>videos\<close> and leaves the records \<open>b1\<close> of \<open>books\<close>,
  \<open>courses\<close> and \<open>quizzes\<close> as they were. Saving the form of the quiz \<open>b1\<close> writes the
  record of \<open>quizzes\<close> and not that of \<open>videos\<close>.
\<close>

theorem edit_writes_three_fields_witness:
  "snd (handleSaveEdit sample_parse
        (handleEdit initial_content_state
           (content_item Video (a_row ''b1'' ''2025-10-01T06:00:00Z'')))
        sample_store None no_refetch) ''videos'' ''b1''
     = Some ((a_row ''b1'' ''2025-10-01T06:00:00Z'')
               \<lparr> row_title := ''Title'', row_description := Some [], row_subject := Some [] \<rparr>)
   \<and> snd (handleSaveEdit sample_parse
        (handleEdit initial_content_state
           (content_item Video (a_row ''b1'' ''2025-10-01T06:00:00Z'')))
        sample_store None no_refetch) ''books'' ''b1''
     = sample_store ''books'' ''b1''
   \<and> snd (handleSaveEdit sample_parse
        (handleEdit initial_content_state
           (content_item Video (a_row ''b1'' ''2025-10-01T06:00:00Z'')))
        sample_store None no_refetch) ''courses'' ''b1''
     = sample_store ''courses'' ''b1''
   \<and> snd (handleSaveEdit sample_parse
        (handleEdit initial_content_state
           (content_item Video (a_row ''b1'' ''2025-10-01T06:00:00Z'')))
        sample_store None no_refetch) ''quizzes'' ''b1''
     = sample_store ''quizzes'' ''b1''
   \<and> snd (handleSaveEdit sample_parse
        (handleEdit initial_content_state
           (content_item Quiz (a_row ''b1'' ''2025-09-01T00:00:00Z'')))
        sample_store None no_refetch) ''quizzes'' ''b1''
     = Some ((a_row ''b1'' ''2025-09-01T00:00:00Z'')
               \<lparr> row_title := ''Title'', row_description := Some [], row_subject := Some [] \<rparr>)
   \<and> snd (handleSaveEdit sample_parse
        (handleEdit initial_content_state
           (content_item Quiz (a_row ''b1'' ''2025-09-01T00:00:00Z'')))
        sample_store None no_refetch) ''videos'' ''b1''
     = sample_store ''videos'' ''b1''
   \<and> snd (handleSaveEdit sample_parse
        (handleEdit initial_content_state
           (content_item Book (a_row ''b1'' ''2025-09-28T08:00:00Z'')))
        sample_store None no_refetch) ''books'' ''b2''
     = sample_store ''books'' ''b2''
   \<and> content_item Video (a_row ''b1'' ''2025-10-01T06:00:00Z'')
       \<in> set (listed_content sample_parse initial_content_state
            (\<lambda>t. delivered (if t = ''videos'' then [a_row ''b1'' ''2025-10-01T06:00:00Z'']
                              else [])))"
proof -
  let ?v = "content_item Video (a_row ''b1'' ''2025-10-01T06:00:00Z'')"
  let ?q = "content_item Quiz (a_row ''b1'' ''2025-09-01T00:00:00Z'')"
  let ?b = "content_item Book (a_row ''b1'' ''2025-09-28T08:00:00Z'')"
  let ?save = "\<lambda>item. snd (handleSaveEdit sample_parse (handleEdit initial_content_state item)
                      sample_store None no_refetch)"
  note t = edit_writes_three_fields
  have tn: "tableName Book = ''books''" "tableName Video = ''videos''"
    "tableName Course = ''courses''" "tableName Quiz = ''quizzes''"
    using t by blast+
  have ty: "c_type ?v = Video" "c_type ?q = Quiz" "c_type ?b = Book"
    "c_id ?v = ''b1''" "c_id ?q = ''b1''" "c_id ?b = ''b1''"
    "c_title ?v = ''Title''" "c_title ?q = ''Title''"
    by (simp_all add: content_item_def a_row_def)
  have iv: "c_description ?v = None \<and> c_subject ?v = None
      \<and> sample_store (tableName (c_type ?v)) (c_id ?v)
          = Some (a_row ''b1'' ''2025-10-01T06:00:00Z'')"
    unfolding ty tn by (simp add: content_item_def a_row_def sample_store_def)
  have iq: "c_description ?q = None \<and> c_subject ?q = None
      \<and> sample_store (tableName (c_type ?q)) (c_id ?q)
          = Some (a_row ''b1'' ''2025-09-01T00:00:00Z'')"
    unfolding ty tn by (simp add: content_item_def a_row_def sample_store_def)
  have wv: "?save ?v (tableName (c_type ?v)) (c_id ?v)
      = Some ((a_row ''b1'' ''2025-10-01T06:00:00Z'')
          \<lparr> row_title := c_title ?v, row_description := Some [], row_subject := Some [] \<rparr>)"
    using t[where s = initial_content_state and item = ?v and parse = sample_parse
        and db = sample_store and refetch = no_refetch
        and r = "a_row ''b1'' ''2025-10-01T06:00:00Z''"] iv
    by blast
  have wq: "?save ?q (tableName (c_type ?q)) (c_id ?q)
      = Some ((a_row ''b1'' ''2025-09-01T00:00:00Z'')
          \<lparr> row_title := c_title ?q, row_description := Some [], row_subject := Some [] \<rparr>)"
    using t[where s = initial_content_state and item = ?q and parse = sample_parse
        and db = sample_store and refetch = no_refetch
        and r = "a_row ''b1'' ''2025-09-01T00:00:00Z''"] iq
    by blast
  have fr: "\<And>item tbl i. tbl \<noteq> tableName (c_type item) \<or> i \<noteq> c_id item \<Longrightarrow>
      ?save item tbl i = sample_store tbl i"
  proof -
    fix item :: ContentItem and tbl i
    assume o: "tbl \<noteq> tableName (c_type item) \<or> i \<noteq> c_id item"
    have "editingItem (handleEdit initial_content_state item) = Some item"
      by (simp add: handleEdit_def)
    with t[where s = "handleEdit initial_content_state item" and item = item
        and parse = sample_parse and db = sample_store and refetch = no_refetch] o
    show "?save item tbl i = sample_store tbl i" by blast
  qed
  have f1: "?save ?v ''books'' ''b1'' = sample_store ''books'' ''b1''"
    by (rule fr) (simp add: ty tn)
  have f2: "?save ?v ''courses'' ''b1'' = sample_store ''courses'' ''b1''"
    by (rule fr) (simp add: ty tn)
  have f3: "?save ?v ''quizzes'' ''b1'' = sample_store ''quizzes'' ''b1''"
    by (rule fr) (simp add: ty tn)
  have f4: "?save ?q ''videos'' ''b1'' = sample_store ''videos'' ''b1''"
    by (rule fr) (simp add: ty tn)
  have f5: "?save ?b ''books'' ''b2'' = sample_store ''books'' ''b2''"
    by (rule fr) (simp add: ty tn)
  have l: "?v \<in> set (listed_content sample_parse initial_content_state
            (\<lambda>t. delivered (if t = ''videos'' then [a_row ''b1'' ''2025-10-01T06:00:00Z'']
                              else [])))"
    by (simp add: listed_content_delivered[where rows = "\<lambda>t. if t = ''videos''
          then [a_row ''b1'' ''2025-10-01T06:00:00Z''] else []"] merged_content_def)
  show ?thesis
    using wv wq f1 f2 f3 f4 f5 l by (simp only: ty tn)
qed

section \<open>Properties of the calendar\<close>

text \<open>
  \<open>YearFromDay\<close> computes what the ECMAScript specification describes: the largest
  year whose first day is not after the given day. A time decomposes into its year,
  month, date and time within the day, and \<open>MakeDay\<close> puts it together again.
\<close>

lemma div_succ_int:
  fixes x n :: int
  assumes "0 < n"
  shows "(x + 1) div n = x div n + (if (x + 1) mod n = 0 then 1 else 0)"
proof -
  define q where "q = x div n"
  define r where "r = x mod n"
  have x: "x = q * n + r" by (simp add: q_def r_def)
  have r: "0 \<le> r" "r < n" using assms by (simp_all add: r_def)
  show ?thesis
  proof (cases "r = n - 1")
    case True
    then have "x + 1 = (q + 1) * n + 0" using x by (simp add: algebra_simps)
    then have "(x + 1) div n = q + 1 \<and> (x + 1) mod n = 0"
      using assms by (metis add.right_neutral mod_mult_self2_is_0 nonzero_mult_div_cancel_right less_irrefl)
    then show ?thesis by (simp add: q_def)
  next
    case False
    then have lt: "r + 1 < n" "0 \<le> r + 1" using r by linarith+
    have e: "x + 1 = (r + 1) + q * n" using x by simp
    have d: "(x + 1) div n = q"
      unfolding e using lt by (simp add: div_pos_pos_trivial)
    have m: "(x + 1) mod n = r + 1"
      unfolding e using lt by (simp add: mod_pos_pos_trivial)
    have "(x + 1) mod n \<noteq> 0" using m r by linarith
    then show ?thesis using d by (simp add: q_def)
  qed
qed

lemma mod_succ_int:
  fixes x n :: int
  assumes "0 < n"
  shows "(x + 1) mod n = (if (x + 1) mod n = 0 then 0 else x mod n + 1)"
proof (cases "(x + 1) mod n = 0")
  case True
  then show ?thesis by simp
next
  case False
  then have d: "(x + 1) div n = x div n" using div_succ_int[OF assms, of x] by simp
  have "n * ((x + 1) div n) + (x + 1) mod n = x + 1" by (rule mult_div_mod_eq)
  moreover have "n * (x div n) + x mod n = x" by (rule mult_div_mod_eq)
  ultimately have "(x + 1) mod n = x mod n + 1" unfolding d by linarith
  then show ?thesis using False by simp
qed

lemma mod_pred_int:
  fixes x n :: int
  assumes "0 < n" "(x + 1) mod n = 0"
  shows "x mod n = n - 1"
proof -
  have d: "(x + 1) div n = x div n + 1" using div_succ_int[OF assms(1), of x] assms(2) by simp
  have "n * ((x + 1) div n) + (x + 1) mod n = x + 1" by (rule mult_div_mod_eq)
  then have "n * (x div n) + n = x + 1" unfolding d assms(2) by (simp add: distrib_left)
  moreover have "n * (x div n) + x mod n = x" by (rule mult_div_mod_eq)
  ultimately show ?thesis by linarith
qed

lemma mod_shift_4: "(y - 1968) mod 4 = 0 \<longleftrightarrow> (y::int) mod 4 = 0"
proof -
  have "(y - 1968) mod 4 = (y + (- 492) * 4) mod 4" by simp
  also have "\<dots> = y mod 4" by (rule mod_mult_self1)
  finally show ?thesis by simp
qed

lemma mod_shift_100: "(y - 1900) mod 100 = 0 \<longleftrightarrow> (y::int) mod 100 = 0"
proof -
  have "(y - 1900) mod 100 = (y + (- 19) * 100) mod 100" by simp
  also have "\<dots> = y mod 100" by (rule mod_mult_self1)
  finally show ?thesis by simp
qed

lemma mod_shift_400: "(y - 1600) mod 400 = 0 \<longleftrightarrow> (y::int) mod 400 = 0"
proof -
  have "(y - 1600) mod 400 = (y + (- 4) * 400) mod 400" by simp
  also have "\<dots> = y mod 400" by (rule mod_mult_self1)
  finally show ?thesis by simp
qed

lemma mod_100_4: "(y::int) mod 100 = 0 \<Longrightarrow> y mod 4 = 0"
  using mod_mod_cancel[of 4 100 y] by simp

lemma mod_400_100: "(y::int) mod 400 = 0 \<Longrightarrow> y mod 100 = 0"
  using mod_mod_cancel[of 100 400 y] by simp

lemma sunday_before: "(d - (d + 4) mod 7 + 4) mod 7 = (0::int)"
proof -
  have "d - (d + 4) mod 7 + 4 = (d + 4) - (d + 4) mod 7" by simp
  also have "\<dots> = 7 * ((d + 4) div 7)" by (rule minus_mod_eq_mult_div)
  finally show ?thesis by simp
qed

lemma int_between:
  fixes m :: int
  assumes "a \<le> m" "m \<le> a + int n"
  shows "m \<in> set (map (\<lambda>i. a + int i) [0..<Suc n])"
proof -
  have "m = a + int (nat (m - a))" using assms(1) by simp
  moreover have "nat (m - a) \<in> set [0..<Suc n]" using assms by auto
  ultimately show ?thesis by (metis (no_types, lifting) image_eqI set_map)
qed


lemma DayFromYear_Suc: "DayFromYear (y + 1) = DayFromYear y + DaysInYear y"
proof -
  have a: "(y + 1 - 1969) div 4 = (y - 1969) div 4 + (if y mod 4 = 0 then 1 else 0)"
    using div_succ_int[of 4 "y - 1969"] mod_shift_4[of y] by (simp add: algebra_simps)
  have b: "(y + 1 - 1901) div 100 = (y - 1901) div 100 + (if y mod 100 = 0 then 1 else 0)"
    using div_succ_int[of 100 "y - 1901"] mod_shift_100[of y] by (simp add: algebra_simps)
  have c: "(y + 1 - 1601) div 400 = (y - 1601) div 400 + (if y mod 400 = 0 then 1 else 0)"
    using div_succ_int[of 400 "y - 1601"] mod_shift_400[of y] by (simp add: algebra_simps)
  show ?thesis
    unfolding DayFromYear_def DaysInYear_def a b c
    using mod_100_4[of y] mod_400_100[of y] by auto
qed

lemma DaysInYear_bounds: "365 \<le> DaysInYear y \<and> DaysInYear y \<le> 366"
  by (simp add: DaysInYear_def)

lemma DayFromYear_strict_mono_Suc: "DayFromYear y < DayFromYear (y + 1)"
  using DayFromYear_Suc[of y] DaysInYear_bounds[of y] by linarith

lemma DayFromYear_mono_nat: "DayFromYear y \<le> DayFromYear (y + int n)"
proof (induction n)
  case 0
  then show ?case by simp
next
  case (Suc n)
  have "DayFromYear (y + int n) < DayFromYear (y + int n + 1)"
    by (rule DayFromYear_strict_mono_Suc)
  moreover have "y + int (Suc n) = y + int n + 1" by simp
  ultimately show ?case using Suc by (simp only:)
qed

lemma DayFromYear_mono: "y \<le> y' \<Longrightarrow> DayFromYear y \<le> DayFromYear y'"
  using DayFromYear_mono_nat[of y "nat (y' - y)"] by simp

lemma DayFromYear_less_imp: "DayFromYear y < DayFromYear y' \<Longrightarrow> y < y'"
  using DayFromYear_mono[of y' y] by linarith

lemma div_lower: "(0::int) < n \<Longrightarrow> x - (n - 1) \<le> n * (x div n)"
proof -
  assume n: "0 < n"
  have "n * (x div n) + x mod n = x" by (rule mult_div_mod_eq)
  moreover have "x mod n < n" using n by simp
  ultimately show ?thesis by linarith
qed

lemma div_upper: "(0::int) < n \<Longrightarrow> n * (x div n) \<le> x"
proof -
  assume n: "0 < n"
  have "n * (x div n) + x mod n = x" by (rule mult_div_mod_eq)
  moreover have "0 \<le> x mod n" using n by simp
  ultimately show ?thesis by linarith
qed

lemma DayFromYear_bounds:
  "146097 * (y - 1970) - 506 \<le> 400 * DayFromYear y"
  "400 * DayFromYear y \<le> 146097 * (y - 1970) + 589"
proof -
  define a where "a = (y - 1969) div 4"
  define b where "b = (y - 1901) div 100"
  define c where "c = (y - 1601) div 400"
  have a: "y - 1969 - 3 \<le> 4 * a" "4 * a \<le> y - 1969"
    using div_lower[of 4 "y - 1969"] div_upper[of 4 "y - 1969"] by (simp_all add: a_def)
  have b: "y - 1901 - 99 \<le> 100 * b" "100 * b \<le> y - 1901"
    using div_lower[of 100 "y - 1901"] div_upper[of 100 "y - 1901"] by (simp_all add: b_def)
  have c: "y - 1601 - 399 \<le> 400 * c" "400 * c \<le> y - 1601"
    using div_lower[of 400 "y - 1601"] div_upper[of 400 "y - 1601"] by (simp_all add: c_def)
  have d: "400 * DayFromYear y
      = 146000 * (y - 1970) + 100 * (4 * a) - 4 * (100 * b) + 400 * c"
    by (simp add: DayFromYear_def a_def b_def c_def)
  have a1: "100 * (y - 1972) \<le> 100 * (4 * a)" using a(1) by simp
  have a2: "100 * (4 * a) \<le> 100 * (y - 1969)" using a(2) by simp
  have b1: "4 * (y - 2000) \<le> 4 * (100 * b)" using b(1) by simp
  have b2: "4 * (100 * b) \<le> 4 * (y - 1901)" using b(2) by simp
  show "146097 * (y - 1970) - 506 \<le> 400 * DayFromYear y"
    using d a1 b2 c(1) by simp
  show "400 * DayFromYear y \<le> 146097 * (y - 1970) + 589"
    using d a2 b1 c(2) by simp
qed

lemma YearFromDay_spec:
  "DayFromYear (YearFromDay d) \<le> d \<and> d < DayFromYear (YearFromDay d + 1)"
proof -
  define y where "y = 1970 + (400 * d) div 146097"
  have k: "400 * d - 146096 \<le> 146097 * (y - 1970)" "146097 * (y - 1970) \<le> 400 * d"
    using div_lower[of 146097 "400 * d"] div_upper[of 146097 "400 * d"]
    by (simp_all add: y_def)
  have "400 * DayFromYear (y - 1) \<le> 146097 * (y - 1 - 1970) + 589"
    by (rule DayFromYear_bounds(2))
  then have "400 * DayFromYear (y - 1) < 400 * d" using k(2) by simp
  then have lo: "DayFromYear (y - 1) \<le> d" by simp
  have "146097 * (y + 2 - 1970) - 506 \<le> 400 * DayFromYear (y + 2)"
    by (rule DayFromYear_bounds(1))
  then have "400 * d < 400 * DayFromYear (y + 2)" using k(1) by simp
  then have hi: "d < DayFromYear (y + 2)" by simp
  have two: "y + 1 + 1 = y + 2" "y - 1 + 1 = y" by simp_all
  show ?thesis
    unfolding YearFromDay_def Let_def y_def[symmetric]
    using lo hi by (auto simp: two)
qed

lemma YearFromDay_unique:
  assumes "DayFromYear y \<le> d" "d < DayFromYear (y + 1)"
  shows "YearFromDay d = y"
proof -
  let ?z = "YearFromDay d"
  have z: "DayFromYear ?z \<le> d" "d < DayFromYear (?z + 1)"
    using YearFromDay_spec[of d] by simp_all
  have "DayFromYear y < DayFromYear (?z + 1)" using assms(1) z(2) by linarith
  then have "y < ?z + 1" by (rule DayFromYear_less_imp)
  moreover have "DayFromYear ?z < DayFromYear (y + 1)" using assms(2) z(1) by linarith
  then have "?z < y + 1" by (rule DayFromYear_less_imp)
  ultimately show ?thesis by linarith
qed

lemma YearFromDay_greatest: "DayFromYear y \<le> d \<Longrightarrow> y \<le> YearFromDay d"
proof -
  assume "DayFromYear y \<le> d"
  then have "DayFromYear y < DayFromYear (YearFromDay d + 1)"
    using YearFromDay_spec[of d] by linarith
  then have "y < YearFromDay d + 1" by (rule DayFromYear_less_imp)
  then show ?thesis by simp
qed


lemma MonthFromTime_range: "0 \<le> MonthFromTime t \<and> MonthFromTime t \<le> 11"
  by (simp add: MonthFromTime_def Let_def)

lemma DayWithinYear_bounds:
  "0 \<le> DayWithinYear t \<and> DayWithinYear t < DaysInYear (YearFromTime t)"
  using YearFromDay_spec[of "Day t"] DayFromYear_Suc[of "YearFromDay (Day t)"]
  by (simp add: DayWithinYear_def YearFromTime_def)

lemma month_start_le_DayWithinYear:
  "month_start (InLeapYear t) (MonthFromTime t) \<le> DayWithinYear t"
  using DayWithinYear_bounds[of t]
  by (simp add: MonthFromTime_def Let_def month_start_def)

lemma DateFromTime_ge_1: "1 \<le> DateFromTime t"
  using month_start_le_DayWithinYear[of t] by (simp add: DateFromTime_def)

lemma MakeDay_from_time:
  "MakeDay (YearFromTime t) (MonthFromTime t) dt = Day t + (dt - DateFromTime t)"
proof -
  have m: "MonthFromTime t div 12 = 0" "MonthFromTime t mod 12 = MonthFromTime t"
    using MonthFromTime_range[of t] by simp_all
  show ?thesis
    by (simp add: MakeDay_def m Let_def DateFromTime_def DayWithinYear_def InLeapYear_def)
qed

lemma Day_TimeWithinDay: "Day t * msPerDay + TimeWithinDay t = t"
  by (simp add: Day_def TimeWithinDay_def)

lemma setDate_shift:
  "setDate tza now dt = now + (dt - getDate tza now) * msPerDay"
proof -
  let ?lt = "LocalTime tza now"
  have "MakeDate (MakeDay (YearFromTime ?lt) (MonthFromTime ?lt) dt) (TimeWithinDay ?lt)
      = (Day ?lt * msPerDay + TimeWithinDay ?lt) + (dt - DateFromTime ?lt) * msPerDay"
    by (simp add: MakeDay_from_time MakeDate_def algebra_simps)
  also have "\<dots> = ?lt + (dt - DateFromTime ?lt) * msPerDay"
    by (simp only: Day_TimeWithinDay)
  finally show ?thesis
    by (simp add: setDate_def Let_def UTC_def LocalTime_def getDate_def)
qed

lemma startOfWeek_shift:
  "setDate tza now (getDate tza now - getDay tza now) = now - getDay tza now * msPerDay"
  by (simp add: setDate_shift algebra_simps)

lemma Day_shift: "Day (t + k * msPerDay) = Day t + k"
  by (simp add: Day_def msPerDay_def)

lemma TimeWithinDay_shift: "TimeWithinDay (t + k * msPerDay) = TimeWithinDay t"
  by (simp add: TimeWithinDay_def msPerDay_def)

lemma WeekDay_range: "0 \<le> WeekDay t \<and> WeekDay t \<le> 6"
  by (simp add: WeekDay_def)

lemma WeekDay_back: "WeekDay (t + (- WeekDay t) * msPerDay) = 0"
proof -
  have "(Day t + - ((Day t + 4) mod 7) + 4) mod 7 = 0"
    using sunday_before[of "Day t"] by simp
  then show ?thesis
    unfolding WeekDay_def Day_shift by simp
qed


lemma setDate_new_Date:
  "setDate tza now dt
     = new_Date tza (getFullYear tza now) (getMonth tza now) dt
       + TimeWithinDay (LocalTime tza now)"
  by (simp add: setDate_def new_Date_def getFullYear_def getMonth_def MakeDate_def UTC_def
      Let_def)

lemma TimeWithinDay_bounds: "0 \<le> TimeWithinDay t \<and> TimeWithinDay t < msPerDay"
  by (simp add: TimeWithinDay_def msPerDay_def)

lemma week_start_eq:
  "week_start tza now
     = now - getDay tza now * msPerDay - TimeWithinDay (LocalTime tza now)"
  using setDate_new_Date[of tza now "getDate tza now - getDay tza now"]
  by (simp add: week_start_def startOfWeek_shift)

lemma month_start_of_eq:
  "month_start_of tza now
     = now - (getDate tza now - 1) * msPerDay - TimeWithinDay (LocalTime tza now)"
  using setDate_new_Date[of tza now 1] setDate_shift[of tza now 1]
  by (simp add: month_start_of_def algebra_simps)

lemma midnight_back:
  "TimeWithinDay (t - k * msPerDay - TimeWithinDay t) = 0
   \<and> Day (t - k * msPerDay - TimeWithinDay t) = Day t - k"
proof -
  have "t - k * msPerDay - TimeWithinDay t = (Day t - k) * msPerDay"
    using Day_TimeWithinDay[of t] by (simp add: algebra_simps)
  moreover have "TimeWithinDay ((Day t - k) * msPerDay) = 0"
    by (simp add: TimeWithinDay_def)
  moreover have "Day ((Day t - k) * msPerDay) = Day t - k"
    by (simp add: Day_def msPerDay_def)
  ultimately show ?thesis by simp
qed

lemma LocalTime_shift: "LocalTime tza (t - a - b) = LocalTime tza t - a - b"
  by (simp add: LocalTime_def)

lemma week_start_is_sunday_midnight:
  "getDay tza (week_start tza now) = 0
   \<and> TimeWithinDay (LocalTime tza (week_start tza now)) = 0
   \<and> week_start tza now \<le> now
   \<and> now < week_start tza now + 7 * msPerDay"
proof -
  let ?lt = "LocalTime tza now"
  have l: "LocalTime tza (week_start tza now)
      = ?lt - WeekDay ?lt * msPerDay - TimeWithinDay ?lt"
    by (simp add: week_start_eq LocalTime_def getDay_def)
  have d: "Day (LocalTime tza (week_start tza now)) = Day ?lt - WeekDay ?lt"
    and t: "TimeWithinDay (LocalTime tza (week_start tza now)) = 0"
    unfolding l using midnight_back[of ?lt "WeekDay ?lt"] by simp_all
  have "(Day ?lt - (Day ?lt + 4) mod 7 + 4) mod 7 = 0" by (rule sunday_before)
  then have s: "getDay tza (week_start tza now) = 0"
    unfolding getDay_def WeekDay_def d by (simp add: WeekDay_def)
  have w: "0 \<le> getDay tza now" "getDay tza now \<le> 6"
    using WeekDay_range[of ?lt] by (simp_all add: getDay_def)
  have b: "0 \<le> TimeWithinDay ?lt" "TimeWithinDay ?lt < msPerDay"
    using TimeWithinDay_bounds[of ?lt] by simp_all
  have p: "0 \<le> getDay tza now * msPerDay" "getDay tza now * msPerDay \<le> 6 * msPerDay"
    using w by (simp_all add: msPerDay_def)
  have le: "week_start tza now \<le> now"
    unfolding week_start_eq using b(1) p(1) by linarith
  have lt: "now < week_start tza now + 7 * msPerDay"
    unfolding week_start_eq using b(2) p(2) by linarith
  show ?thesis
    using s t le lt by (intro conjI)
qed


lemma month_start_nonneg: "0 \<le> month_start leap m"
  by (simp add: month_start_def)

lemma month_cases:
  assumes "0 \<le> m" "m \<le> (11::int)"
  shows "m = 0 \<or> m = 1 \<or> m = 2 \<or> m = 3 \<or> m = 4 \<or> m = 5 \<or> m = 6 \<or> m = 7
         \<or> m = 8 \<or> m = 9 \<or> m = 10 \<or> m = 11"
  using int_between[of 0 m 11] assms by (simp add: upt_rec)

lemma MonthFromTime_of_start:
  assumes "0 \<le> m" "m \<le> 11" "DayWithinYear t = month_start (InLeapYear t) m"
  shows "MonthFromTime t = m"
  using month_cases[OF assms(1,2)] assms(3)
  by (elim disjE) (simp_all add: MonthFromTime_def Let_def month_start_def)

lemma first_of_month:
  assumes "Day t' = DayFromYear (YearFromTime t) + month_start (InLeapYear t) (MonthFromTime t)"
  shows "YearFromTime t' = YearFromTime t \<and> MonthFromTime t' = MonthFromTime t
         \<and> DateFromTime t' = 1"
proof -
  let ?y = "YearFromTime t"
  have up: "Day t < DayFromYear (?y + 1)"
    using YearFromDay_spec[of "Day t"] by (simp add: YearFromTime_def)
  have "Day t' \<le> Day t"
    using assms month_start_le_DayWithinYear[of t] by (simp add: DayWithinYear_def)
  then have "Day t' < DayFromYear (?y + 1)" using up by linarith
  moreover have "DayFromYear ?y \<le> Day t'"
    using assms month_start_nonneg[of "InLeapYear t" "MonthFromTime t"] by linarith
  ultimately have y: "YearFromTime t' = ?y"
    unfolding YearFromTime_def[of t'] by (intro YearFromDay_unique)
  then have l: "InLeapYear t' = InLeapYear t" by (simp add: InLeapYear_def)
  have d: "DayWithinYear t' = month_start (InLeapYear t') (MonthFromTime t)"
    using assms by (simp add: DayWithinYear_def y l)
  have m: "MonthFromTime t' = MonthFromTime t"
    using MonthFromTime_range[of t] d by (intro MonthFromTime_of_start) simp_all
  have "DateFromTime t' = 1"
    by (simp add: DateFromTime_def d m)
  with y m show ?thesis by simp
qed

lemma month_start_of_is_first_midnight:
  "getFullYear tza (month_start_of tza now) = getFullYear tza now
   \<and> getMonth tza (month_start_of tza now) = getMonth tza now
   \<and> getDate tza (month_start_of tza now) = 1
   \<and> TimeWithinDay (LocalTime tza (month_start_of tza now)) = 0
   \<and> month_start_of tza now \<le> now"
proof -
  let ?lt = "LocalTime tza now"
  let ?ms = "LocalTime tza (month_start_of tza now)"
  have l: "?ms = ?lt - (DateFromTime ?lt - 1) * msPerDay - TimeWithinDay ?lt"
    unfolding month_start_of_eq getDate_def by (simp add: LocalTime_def)
  have d: "Day ?ms = Day ?lt - (DateFromTime ?lt - 1)"
    and t: "TimeWithinDay ?ms = 0"
    unfolding l using midnight_back[of ?lt "DateFromTime ?lt - 1"] by simp_all
  have "Day ?ms
      = DayFromYear (YearFromTime ?lt) + month_start (InLeapYear ?lt) (MonthFromTime ?lt)"
    unfolding d by (simp add: DateFromTime_def DayWithinYear_def)
  then have f: "YearFromTime ?ms = YearFromTime ?lt \<and> MonthFromTime ?ms = MonthFromTime ?lt
         \<and> DateFromTime ?ms = 1"
    by (rule first_of_month)
  have b: "0 \<le> TimeWithinDay ?lt" using TimeWithinDay_bounds[of ?lt] by simp
  have "0 \<le> (getDate tza now - 1) * msPerDay"
    using DateFromTime_ge_1[of ?lt] by (simp add: getDate_def msPerDay_def)
  then have le: "month_start_of tza now \<le> now"
    unfolding month_start_of_eq using b by linarith
  show ?thesis
    using f t le by (simp add: getFullYear_def getMonth_def getDate_def)
qed

lemma month_start_step:
  assumes "0 \<le> m" "m < 11"
  shows "month_start leap m < month_start leap (m + 1)"
proof -
  have "m = 0 \<or> m = 1 \<or> m = 2 \<or> m = 3 \<or> m = 4 \<or> m = 5 \<or> m = 6 \<or> m = 7
         \<or> m = 8 \<or> m = 9 \<or> m = 10"
    using int_between[of 0 m 10] assms by (simp add: upt_rec)
  then show ?thesis
    by (elim disjE) (simp_all add: month_start_def)
qed

lemma month_start_11: "month_start leap 11 < 365"
  by (simp add: month_start_def)

lemma MakeDay_month_mono: "MakeDay y m 1 < MakeDay y (m + 1) 1"
proof (cases "(m + 1) mod 12 = 0")
  case True
  then have mm: "m mod 12 = 11" using mod_pred_int[of 12 m] by simp
  have dd: "(m + 1) div 12 = m div 12 + 1"
    using div_succ_int[of 12 m] True by simp
  have "DayFromYear (y + m div 12) + month_start (DaysInYear (y + m div 12) = 366) 11
      < DayFromYear (y + m div 12) + DaysInYear (y + m div 12)"
    using month_start_11[of "DaysInYear (y + m div 12) = 366"]
      DaysInYear_bounds[of "y + m div 12"] by linarith
  also have "\<dots> = DayFromYear (y + m div 12 + 1)"
    by (simp only: DayFromYear_Suc)
  finally show ?thesis
    by (simp add: MakeDay_def Let_def mm dd True month_start_def add.assoc)
next
  case False
  then have dd: "(m + 1) div 12 = m div 12"
    using div_succ_int[of 12 m] by simp
  have r: "0 \<le> m mod 12" "m mod 12 < 12" by simp_all
  have mm: "(m + 1) mod 12 = m mod 12 + 1" using False mod_succ_int[of 12 m] by simp
  then have "m mod 12 < 11" using False r pos_mod_bound[of 12 "m + 1"] by linarith
  then have "month_start (DaysInYear (y + m div 12) = 366) (m mod 12)
      < month_start (DaysInYear (y + m div 12) = 366) (m mod 12 + 1)"
    using r(1) by (intro month_start_step)
  then show ?thesis
    by (simp add: MakeDay_def Let_def mm dd)
qed

lemma new_Date_month_mono: "new_Date tza y m 1 < new_Date tza y (m + 1) 1"
  using MakeDay_month_mono[of y m]
  by (simp add: new_Date_def MakeDate_def UTC_def msPerDay_def)


lemma in_window_fun:
  "in_window parse lo hi
     = (\<lambda>user. date_ge (parse (created_at user)) lo \<and> date_lt (parse (created_at user)) hi)"
  by (rule ext) (simp add: in_window_def)

lemma growth_bucket_eq:
  "growth_bucket tza parse anchor users (Suc i)
     = \<lparr> month = month_year_label tza (bucket_start tza anchor (Suc i)),
         count = length (filter (in_window parse (bucket_start tza anchor (Suc i))
                   (bucket_start tza anchor i)) users) \<rparr>"
proof -
  have "getMonth tza anchor - int (Suc i) + 1 = getMonth tza anchor - int i" by simp
  then show ?thesis
    by (simp add: growth_bucket_def bucket_start_def in_window_fun Let_def)
qed

lemma growth_bucket_0:
  "growth_bucket tza parse anchor users 0
     = \<lparr> month = month_year_label tza (bucket_start tza anchor 0),
         count = length (filter (in_window parse (bucket_start tza anchor 0)
                   (window_end tza anchor)) users) \<rparr>"
  by (simp add: growth_bucket_def bucket_start_def window_end_def in_window_fun Let_def)

lemma bucket_start_Suc: "bucket_start tza anchor (Suc i) < bucket_start tza anchor i"
proof -
  have "getMonth tza anchor - int (Suc i) + 1 = getMonth tza anchor - int i" by simp
  then show ?thesis
    using new_Date_month_mono[of tza "getFullYear tza anchor" "getMonth tza anchor - int (Suc i)"]
    by (simp add: bucket_start_def)
qed

lemma bucket_start_0_less_end: "bucket_start tza anchor 0 < window_end tza anchor"
  using new_Date_month_mono[of tza "getFullYear tza anchor" "getMonth tza anchor"]
  by (simp add: bucket_start_def window_end_def)

lemma bucket_start_less_end: "bucket_start tza anchor i < window_end tza anchor"
proof (induction i)
  case 0
  show ?case by (rule bucket_start_0_less_end)
next
  case (Suc i)
  then show ?case using bucket_start_Suc[of tza anchor i] by linarith
qed

lemma count_split:
  assumes "a \<le> b" "b \<le> c"
  shows "length (filter (in_window parse a b) xs) + length (filter (in_window parse b c) xs)
           = length (filter (in_window parse a c) xs)"
proof (induction xs)
  case Nil
  show ?case by simp
next
  case (Cons x xs)
  show ?case
  proof (cases "parse (created_at x)")
    case None
    then show ?thesis using Cons by (simp add: in_window_def)
  next
    case (Some t)
    then show ?thesis using Cons assms by (auto simp: in_window_def)
  qed
qed

lemma growth_loop_sum:
  "sum_list (map count (growth_loop tza parse anchor users i))
     = length (filter (in_window parse (bucket_start tza anchor i) (window_end tza anchor))
         users)"
proof (induction i)
  case 0
  show ?case by (simp add: growth_bucket_0)
next
  case (Suc i)
  have "length (filter (in_window parse (bucket_start tza anchor (Suc i))
            (bucket_start tza anchor i)) users)
        + length (filter (in_window parse (bucket_start tza anchor i)
            (window_end tza anchor)) users)
      = length (filter (in_window parse (bucket_start tza anchor (Suc i))
            (window_end tza anchor)) users)"
    using bucket_start_Suc[of tza anchor i] bucket_start_less_end[of tza anchor i]
    by (intro count_split) simp_all
  then show ?case
    using Suc by (simp add: growth_bucket_eq)
qed

lemma growth_loop_months:
  "map month (growth_loop tza parse anchor users i)
     = map (\<lambda>j. month_year_label tza (bucket_start tza anchor j)) (rev [0..<Suc i])"
proof (induction i)
  case 0
  show ?case by (simp add: growth_bucket_0)
next
  case (Suc i)
  then show ?case by (simp add: growth_bucket_eq)
qed

section \<open>UserStatistics: the time windows and the monthly growth\<close>

lemma startOfWeek_eq:
  "setDate tza now (getDate tza now - getDay tza now) = most_recent_sunday tza now"
  by (simp add: startOfWeek_shift most_recent_sunday_def)

lemma most_recent_sunday_eq:
  "most_recent_sunday tza now = week_start tza now + TimeWithinDay (LocalTime tza now)"
  by (simp add: most_recent_sunday_def week_start_eq)

lemma most_recent_sunday_getDay: "getDay tza (most_recent_sunday tza now) = 0"
  using WeekDay_back[of "LocalTime tza now"]
  by (simp add: most_recent_sunday_def getDay_def LocalTime_def algebra_simps)

lemma user_statistics_newUsersThisMonth:
  "newUsersThisMonth (user_statistics tza parse now users)
     = length (filter (\<lambda>user. date_ge (parse (created_at user)) (month_start_of tza now)) users)"
  by (simp add: user_statistics_def month_start_of_def Let_def)

lemma user_statistics_newUsersThisWeek:
  "newUsersThisWeek (user_statistics tza parse now users)
     = length (filter (\<lambda>user. date_ge (parse (created_at user))
                 (most_recent_sunday tza now)) users)"
  by (simp add: user_statistics_def startOfWeek_eq Let_def)

lemma user_statistics_monthlyGrowth:
  "monthlyGrowth (user_statistics tza parse now users)
     = growth_loop tza parse (most_recent_sunday tza now) users 5"
  by (simp add: user_statistics_def startOfWeek_eq Let_def)

lemma length_growth_loop: "length (growth_loop tza parse now users i) = Suc i"
  by (induction i) simp_all

subsection \<open>Wednesday 1 October 2025, noon\<close>

lemma wed_getDay: "getDay 0 1759320000000 = 3"
  by code_simp

lemma wed_getDate: "getDate 0 1759320000000 = 1"
  by code_simp

lemma wed_getMonth: "getMonth 0 1759320000000 = 9"
  by code_simp

lemma wed_getFullYear: "getFullYear 0 1759320000000 = 2025"
  by code_simp

lemma wed_month_start: "month_start_of 0 1759320000000 = 1759276800000"
  unfolding month_start_of_def wed_getMonth wed_getFullYear by code_simp

lemma wed_week_start: "week_start 0 1759320000000 = 1759017600000"
  unfolding week_start_def wed_getMonth wed_getFullYear wed_getDate wed_getDay by code_simp

lemma wed_time_within_day: "TimeWithinDay (LocalTime 0 1759320000000) = 43200000"
  by code_simp

lemma wed_sunday: "most_recent_sunday 0 1759320000000 = 1759060800000"
  by (simp add: most_recent_sunday_def wed_getDay msPerDay_def)

lemma wed_label: "month_year_label 0 1759320000000 = ''Oct 2025''"
  by code_simp

lemma sunday_noon_month: "getMonth 0 1759060800000 = 8 \<and> getFullYear 0 1759060800000 = 2025"
  by code_simp

lemma wed_growth:
  "growth_loop 0 sample_parse 1759060800000 [a_profile ''2025-10-01T06:00:00Z''] 5
     = [\<lparr> month = ''Apr 2025'', count = 0 \<rparr>, \<lparr> month = ''May 2025'', count = 0 \<rparr>,
        \<lparr> month = ''Jun 2025'', count = 0 \<rparr>, \<lparr> month = ''Jul 2025'', count = 0 \<rparr>,
        \<lparr> month = ''Aug 2025'', count = 0 \<rparr>, \<lparr> month = ''Sep 2025'', count = 0 \<rparr>]"
  by code_simp

lemma sunday_midnight: "getDay 0 1759017600000 = 0 \<and> TimeWithinDay (LocalTime 0 1759017600000) = 0"
  by code_simp

lemma sample_parse_values:
  "sample_parse ''2025-10-01T06:00:00Z'' = Some 1759298400000"
  "sample_parse ''2025-09-28T08:00:00Z'' = Some 1759046400000"
  by (simp_all add: sample_parse_def)

text \<open>
  Claim C3. The monthly growth has six buckets, oldest first; each starts at the local
  midnight of the first day of a month and ends where the next begins, the starts
  increase strictly, and the six counts add up to the number of records in the window
  of the six months. The window ends with the month of \<open>now\<close> as the loop reads it,
  which is the most recent Sunday: \<open>now.setDate\<close> has overwritten the current time
  before the loop runs. At a current time of Wednesday 1 October 2025, 12:00 (time zone
  UTC), with one user created that day at 06:00, the buckets run from April to September
  2025: the current calendar month, October 2025, has no bucket, and the user, counted in
  \<open>newUsersThisMonth\<close>, falls in none.
\<close>

theorem monthly_growth_anchored_at_sunday:
  "(\<forall>tza parse now users.
      length (monthlyGrowth (user_statistics tza parse now users)) = 6
      \<and> map month (monthlyGrowth (user_statistics tza parse now users))
          = map (\<lambda>i. month_year_label tza (bucket_start tza (most_recent_sunday tza now) i))
              (rev [0..<6])
      \<and> sum_list (map count (monthlyGrowth (user_statistics tza parse now users)))
          = length (filter (in_window parse (bucket_start tza (most_recent_sunday tza now) 5)
                      (window_end tza (most_recent_sunday tza now))) users))
   \<and> (\<forall>tza anchor i. bucket_start tza anchor (Suc i) < bucket_start tza anchor i
          \<and> bucket_start tza anchor 0 < window_end tza anchor)
   \<and> monthlyGrowth (user_statistics 0 sample_parse 1759320000000
        [a_profile ''2025-10-01T06:00:00Z''])
       = [\<lparr> month = ''Apr 2025'', count = 0 \<rparr>, \<lparr> month = ''May 2025'', count = 0 \<rparr>,
          \<lparr> month = ''Jun 2025'', count = 0 \<rparr>, \<lparr> month = ''Jul 2025'', count = 0 \<rparr>,
          \<lparr> month = ''Aug 2025'', count = 0 \<rparr>, \<lparr> month = ''Sep 2025'', count = 0 \<rparr>]
   \<and> month_year_label 0 1759320000000 = ''Oct 2025''
   \<and> newUsersThisMonth (user_statistics 0 sample_parse 1759320000000
        [a_profile ''2025-10-01T06:00:00Z'']) = 1"
proof (intro conjI allI)
  fix tza parse now users
  have six: "(6::nat) = Suc 5" by simp
  show "length (monthlyGrowth (user_statistics tza parse now users)) = 6"
    by (simp add: user_statistics_monthlyGrowth length_growth_loop)
  show "map month (monthlyGrowth (user_statistics tza parse now users))
          = map (\<lambda>i. month_year_label tza (bucket_start tza (most_recent_sunday tza now) i))
              (rev [0..<6])"
    unfolding user_statistics_monthlyGrowth six by (rule growth_loop_months)
  show "sum_list (map count (monthlyGrowth (user_statistics tza parse now users)))
          = length (filter (in_window parse (bucket_start tza (most_recent_sunday tza now) 5)
                      (window_end tza (most_recent_sunday tza now))) users)"
    unfolding user_statistics_monthlyGrowth by (rule growth_loop_sum)
next
  fix tza anchor i
  show "bucket_start tza anchor (Suc i) < bucket_start tza anchor i"
    by (rule bucket_start_Suc)
  show "bucket_start tza anchor 0 < window_end tza anchor"
    by (rule bucket_start_0_less_end)
next
  show "monthlyGrowth (user_statistics 0 sample_parse 1759320000000
        [a_profile ''2025-10-01T06:00:00Z''])
       = [\<lparr> month = ''Apr 2025'', count = 0 \<rparr>, \<lparr> month = ''May 2025'', count = 0 \<rparr>,
          \<lparr> month = ''Jun 2025'', count = 0 \<rparr>, \<lparr> month = ''Jul 2025'', count = 0 \<rparr>,
          \<lparr> month = ''Aug 2025'', count = 0 \<rparr>, \<lparr> month = ''Sep 2025'', count = 0 \<rparr>]"
    unfolding user_statistics_monthlyGrowth wed_sunday by (rule wed_growth)
next
  show "month_year_label 0 1759320000000 = ''Oct 2025''"
    by (rule wed_label)
next
  show "newUsersThisMonth (user_statistics 0 sample_parse 1759320000000
        [a_profile ''2025-10-01T06:00:00Z'']) = 1"
    unfolding user_statistics_newUsersThisMonth wed_month_start
    by (simp add: a_profile_def sample_parse_values)
qed

text \<open>
  Claim C4. \<open>newUsersThisMonth\<close> counts the records created at or after the local
  midnight of the first day of the current month. \<open>newUsersThisWeek\<close> counts the records
  created at or after the most recent Sunday at the current time of day, which is the
  start of the week plus the time elapsed today. At a current time of Wednesday 1 October
  2025, 12:00 (time zone UTC), a user created on Sunday 28 September at 08:00 belongs to
  the week that started on that Sunday at 00:00, and \<open>newUsersThisWeek\<close> is 0.
\<close>

theorem new_users_this_week_lower_bound:
  "(\<forall>tza parse now users.
      newUsersThisMonth (user_statistics tza parse now users)
        = length (filter (\<lambda>user. date_ge (parse (created_at user)) (month_start_of tza now))
            users)
      \<and> getFullYear tza (month_start_of tza now) = getFullYear tza now
      \<and> getMonth tza (month_start_of tza now) = getMonth tza now
      \<and> getDate tza (month_start_of tza now) = 1
      \<and> TimeWithinDay (LocalTime tza (month_start_of tza now)) = 0
      \<and> month_start_of tza now \<le> now
      \<and> newUsersThisWeek (user_statistics tza parse now users)
        = length (filter (\<lambda>user. date_ge (parse (created_at user))
                    (week_start tza now + TimeWithinDay (LocalTime tza now))) users)
      \<and> getDay tza (week_start tza now) = 0
      \<and> TimeWithinDay (LocalTime tza (week_start tza now)) = 0
      \<and> week_start tza now \<le> now
      \<and> now < week_start tza now + 7 * msPerDay)
   \<and> getDay 0 1759320000000 = 3
   \<and> week_start 0 1759320000000 = 1759017600000
   \<and> date_ge (sample_parse ''2025-09-28T08:00:00Z'') (week_start 0 1759320000000)
   \<and> length (filter (\<lambda>user. date_ge (sample_parse (created_at user))
          (week_start 0 1759320000000)) [a_profile ''2025-09-28T08:00:00Z'']) = 1
   \<and> newUsersThisWeek (user_statistics 0 sample_parse 1759320000000
        [a_profile ''2025-09-28T08:00:00Z'']) = 0"
proof (intro conjI allI)
  fix tza parse now users
  show "newUsersThisMonth (user_statistics tza parse now users)
        = length (filter (\<lambda>user. date_ge (parse (created_at user)) (month_start_of tza now))
            users)"
    by (rule user_statistics_newUsersThisMonth)
  show "newUsersThisWeek (user_statistics tza parse now users)
        = length (filter (\<lambda>user. date_ge (parse (created_at user))
                    (week_start tza now + TimeWithinDay (LocalTime tza now))) users)"
    by (simp only: user_statistics_newUsersThisWeek most_recent_sunday_eq)
  show "getFullYear tza (month_start_of tza now) = getFullYear tza now"
    "getMonth tza (month_start_of tza now) = getMonth tza now"
    "getDate tza (month_start_of tza now) = 1"
    "TimeWithinDay (LocalTime tza (month_start_of tza now)) = 0"
    "month_start_of tza now \<le> now"
    using month_start_of_is_first_midnight[of tza now] by simp_all
  show "getDay tza (week_start tza now) = 0"
    "TimeWithinDay (LocalTime tza (week_start tza now)) = 0"
    "week_start tza now \<le> now"
    "now < week_start tza now + 7 * msPerDay"
    using week_start_is_sunday_midnight[of tza now] by simp_all
next
  show "newUsersThisWeek (user_statistics 0 sample_parse 1759320000000
        [a_profile ''2025-09-28T08:00:00Z'']) = 0"
    unfolding user_statistics_newUsersThisWeek wed_sunday
    by (simp add: a_profile_def sample_parse_values)
qed (simp_all add: wed_getDay wed_week_start sample_parse_values a_profile_def)

section \<open>Running an aggregator twice\<close>

lemma fetchQuizAnalytics_twice:
  "fetchQuizAnalytics (fetchQuizAnalytics s r) r = fetchQuizAnalytics s r"
  by (cases r) (simp_all split: option.splits)

lemma fetchQuizHistory_twice:
  "fetchQuizHistory (fetchQuizHistory s r) r = fetchQuizHistory s r"
  by (cases r) (simp_all add: Let_def split: option.splits)

lemma fetchUserStatistics_twice:
  "fetchUserStatistics tza parse now (fetchUserStatistics tza parse now s r) r
     = fetchUserStatistics tza parse now s r"
  by (cases r) (simp_all split: option.splits)

lemma fetchAllContent_twice:
  "content (fetchAllContent parse (fetchAllContent parse s b v c q) b v c q)
     = content (fetchAllContent parse s b v c q)"
  by (cases b; cases v; cases c; cases q) (simp_all add: Let_def)

text \<open>
  Claim C8. Each aggregator, run a second time on the same answer of the store (and, for
  the statistics, the same current time), leaves the view-model that the first run
  produced; and when the store delivers rows, the view-model is a function of those rows
  (and of the current time) alone, whatever the state before.
\<close>

theorem aggregators_deterministic:
  "fetchQuizAnalytics (fetchQuizAnalytics sa ra) ra = fetchQuizAnalytics sa ra
   \<and> fetchQuizHistory (fetchQuizHistory sh rh) rh = fetchQuizHistory sh rh
   \<and> fetchUserStatistics tza parse now (fetchUserStatistics tza parse now su ru) ru
       = fetchUserStatistics tza parse now su ru
   \<and> content (fetchAllContent parse (fetchAllContent parse sc b v c q) b v c q)
       = content (fetchAllContent parse sc b v c q)
   \<and> analytics (fetchQuizAnalytics sa (delivered quizzes)) = map quiz_analytics quizzes
   \<and> history (fetchQuizHistory sh (delivered attempts)) = map history_row attempts
   \<and> stats (fetchQuizHistory sh (delivered attempts)) = quiz_stats (map history_row attempts)
   \<and> user_stats (fetchUserStatistics tza parse now su (delivered users))
       = user_statistics tza parse now users
   \<and> content (fetchAllContent parse sc (delivered bs) (delivered vs) (delivered cs)
         (delivered qs))
       = Array_sort (by_created_desc parse) (merged_content bs vs cs qs)"
  by (simp add: fetchQuizAnalytics_twice fetchQuizHistory_twice fetchUserStatistics_twice
      fetchAllContent_twice fetchAllContent_delivered)
    (simp add: delivered_def Let_def)

theorem aggregators_deterministic_witness:
  "history (fetchQuizHistory
        (fetchQuizHistory \<lparr> history = [], stats = quiz_stats [], h_loading = True \<rparr>
           (delivered sample_attempts))
        (delivered sample_attempts))
     = map history_row sample_attempts
   \<and> content (fetchAllContent sample_parse
        (fetchAllContent sample_parse initial_content_state
           (delivered [a_row ''b1'' ''2025-09-28T08:00:00Z'']) (Rejected ''network'')
           (delivered []) (delivered []))
        (delivered [a_row ''b1'' ''2025-09-28T08:00:00Z'']) (Rejected ''network'')
        (delivered []) (delivered []))
     = []"
proof -
  have "content (fetchAllContent sample_parse initial_content_state
           (delivered [a_row ''b1'' ''2025-09-28T08:00:00Z'']) (Rejected ''network'')
           (delivered []) (delivered [])) = []"
    by (simp add: delivered_def initial_content_state_def)
  then show ?thesis
    using aggregators_deterministic[where sh = "\<lparr> history = [], stats = quiz_stats [], h_loading = True \<rparr>"
        and rh = "delivered sample_attempts" and attempts = sample_attempts
        and parse = sample_parse and sc = initial_content_state
        and b = "delivered [a_row ''b1'' ''2025-09-28T08:00:00Z'']"
        and v = "Rejected ''network''" and c = "delivered []" and q = "delivered []"]
    by simp
qed

end
